theory Spec2Isabelle
  imports Complex_Main "HOL-Library.Word" "HOL-Library.AList"
begin

section \<open>JSON values\<close>

text \<open>
  What \<^verbatim>\<open>response.json()\<close> returns: \<^verbatim>\<open>None\<close>, a bool, an int, a float (its 64 bits),
  a str, a list or a dict. A dict is the list of its items, looked up with \<open>map_of\<close>.
  A str is the list of the bytes of its UTF-8 encoding; the model only compares and
  concatenates strings.
\<close>

datatype json =
    JNull
  | JBool bool
  | JInt int
  | JFloat "64 word"
  | JStr string
  | JArr "json list"
  | JObj "(string \<times> json) list"

section \<open>The rate limiter (api.py, class Limiter)\<close>

text \<open>
  Python floats are modelled as exact reals: the clock and the interval are finite
  numbers, and the one non-finite value the source writes, \<^verbatim>\<open>float("-inf")\<close>, is a
  constructor of its own. Rounding is outside the model.
\<close>

datatype timestamp = NegInf | At real

text \<open>
  \<open>acquire_patched\<close> records the instance attribute that \<^verbatim>\<open>__init__\<close> installs with
  \<^verbatim>\<open>self.acquire = lambda: None\<close>; an instance attribute shadows the method of the class.
\<close>

record Limiter =
  interval :: real
  acquire_patched :: bool
  last' :: timestamp

text \<open>
  The outside world of one client: the monotonic clock and the calls made to the
  primitives, oldest first. The request of an HTTP call is the URL and the query
  parameters that reach the wire.
\<close>

datatype param = PStr string | PInt int

datatype http_method = GET | POST

record request =
  http_method :: http_method
  url :: string
  query :: "(string \<times> param) list"
  json_body :: "json option"

datatype event =
    Monotonic
  | Sleep real
  | Send request
  | Json
  | Validate

record world =
  clock :: real
  trace :: "event list"

definition pass :: "real \<Rightarrow> world \<Rightarrow> world" where
  "pass d w = w\<lparr>clock := clock w + d\<rparr>"

definition monotonic :: "world \<Rightarrow> real \<times> world" where
  "monotonic w = (clock w, w\<lparr>trace := trace w @ [Monotonic]\<rparr>)"

text \<open>
  \<^verbatim>\<open>time.sleep(secs)\<close> suspends the caller for at least \<open>secs\<close>: the clock moves by
  \<open>secs\<close> and by whatever the scheduler adds (\<open>over\<close>).
\<close>

definition sleep :: "real \<Rightarrow> real \<Rightarrow> world \<Rightarrow> world" where
  "sleep secs over w = w\<lparr>clock := clock w + secs + over, trace := trace w @ [Sleep secs]\<rparr>"

text \<open>
  The time the environment lets pass around one call of \<^verbatim>\<open>acquire\<close>: before the call
  (\<open>gap\<close>), between the first clock read and the sleep (\<open>compute\<close>), beyond the requested
  sleep (\<open>oversleep\<close>), and between waking up and the second clock read (\<open>reread\<close>).
\<close>

record delays =
  gap :: real
  compute :: real
  oversleep :: real
  reread :: real

definition delays_ok :: "delays \<Rightarrow> bool" where
  "delays_ok d = (0 \<le> gap d \<and> 0 \<le> compute d \<and> 0 \<le> oversleep d \<and> 0 \<le> reread d)"

definition Limiter_init :: "real \<Rightarrow> Limiter" where
  "Limiter_init interval_seconds =
     \<lparr>interval = interval_seconds,
      acquire_patched = (interval_seconds \<le> 0),
      last' = NegInf\<rparr>"

text \<open>
  Lines 41 to 43: \<^verbatim>\<open>elapsed = now - self.last; wait = self.interval - elapsed\<close> and the
  argument \<^verbatim>\<open>max(0.0, wait)\<close> of the sleep. With \<^verbatim>\<open>last = -inf\<close> the elapsed time is
  \<^verbatim>\<open>+inf\<close>, the wait is \<^verbatim>\<open>-inf\<close> and the maximum is \<^verbatim>\<open>0.0\<close>.
\<close>

definition sleep_secs :: "real \<Rightarrow> real \<Rightarrow> timestamp \<Rightarrow> real" where
  "sleep_secs i now l = (case l of NegInf \<Rightarrow> 0 | At t \<Rightarrow> max 0 (i - (now - t)))"

text \<open>The method of the class, lines 36 to 44.\<close>

definition Limiter_acquire :: "Limiter \<Rightarrow> delays \<Rightarrow> world \<Rightarrow> Limiter \<times> world" where
  "Limiter_acquire lm d w =
     (let (now, w1) = monotonic w;
          w2 = sleep (sleep_secs (interval lm) now (last' lm)) (oversleep d) (pass (compute d) w1);
          (t, w3) = monotonic (pass (reread d) w2)
      in (lm\<lparr>last' := At t\<rparr>, w3))"

text \<open>What \<^verbatim>\<open>limiter.acquire()\<close> runs: the patched attribute when there is one.\<close>

definition acquire :: "Limiter \<Rightarrow> delays \<Rightarrow> world \<Rightarrow> Limiter \<times> world" where
  "acquire lm d w = (if acquire_patched lm then (lm, w) else Limiter_acquire lm d w)"

text \<open>
  A caller that calls \<^verbatim>\<open>acquire\<close> once per element of the list, one call after the
  other; the result lists the limiter and the world as each call returns.
\<close>

fun acquire_all :: "Limiter \<Rightarrow> delays list \<Rightarrow> world \<Rightarrow> (Limiter \<times> world) list" where
  "acquire_all lm [] w = []"
| "acquire_all lm (d # ds) w =
     (let (lm1, w1) = acquire lm d (pass (gap d) w)
      in (lm1, w1) # acquire_all lm1 ds w1)"

text \<open>Successive elements of a list of times are at least \<open>i\<close> apart.\<close>

fun spaced :: "real \<Rightarrow> real list \<Rightarrow> bool" where
  "spaced i (a # b # ts) = (a + i \<le> b \<and> spaced i (b # ts))"
| "spaced i ts = True"

definition sleeps :: "world \<Rightarrow> real list" where
  "sleeps w = concat (map (\<lambda>e. case e of Sleep s \<Rightarrow> [s] | _ \<Rightarrow> []) (trace w))"

definition clock_reads :: "world \<Rightarrow> nat" where
  "clock_reads w = length (filter (\<lambda>e. e = Monotonic) (trace w))"

subsection \<open>Several callers of one limiter\<close>

text \<open>
  \<^verbatim>\<open>Limiter.acquire\<close> takes no lock, so callers on several threads run its statements
  interleaved. Each thread calls \<^verbatim>\<open>limiter.acquire()\<close> once. The call looks the
  attribute up: on a limiter whose \<^verbatim>\<open>acquire\<close> was replaced in \<^verbatim>\<open>__init__\<close> it returns at
  once and touches nothing, otherwise it enters the method of the class. The program
  counter of a thread names the line it executes next, and its locals are \<^verbatim>\<open>now\<close> and
  the argument of the sleep (lines 41 to 43 compute it from \<^verbatim>\<open>self.last\<close> as read on
  line 41). A sleeping thread resumes no earlier than at its wake-up time. A thread
  switch between two statements is one the interpreter can make; it can also switch
  inside a statement, which this model leaves out.
\<close>

datatype pc = Call | L40 | L41 | L43 | Asleep | L44 | Returned

record thread =
  pc :: pc
  now :: real
  secs :: real
  wake :: real
  stamp :: real

record system =
  shared :: Limiter
  wld :: world
  thr :: "thread list"

definition start :: "Limiter \<Rightarrow> nat \<Rightarrow> world \<Rightarrow> system" where
  "start lm n w =
     \<lparr>shared = lm, wld = w,
      thr = replicate n \<lparr>pc = Call, now = 0, secs = 0, wake = 0, stamp = 0\<rparr>\<rparr>"

text \<open>
  One event of a schedule: the time \<open>d\<close> passes, then thread \<open>k\<close> executes its next
  statement.
\<close>

definition step :: "nat \<times> real \<Rightarrow> system \<Rightarrow> system" where
  "step e s =
     (let k = fst e; w = pass (snd e) (wld s) in
      if k < length (thr s) then
        (let t = thr s ! k in
         case pc t of
           Call \<Rightarrow>
             if acquire_patched (shared s)
             then s\<lparr>wld := w, thr := (thr s)[k := t\<lparr>pc := Returned, stamp := clock w\<rparr>]\<rparr>
             else s\<lparr>wld := w, thr := (thr s)[k := t\<lparr>pc := L40\<rparr>]\<rparr>
         | L40 \<Rightarrow>
             s\<lparr>wld := w\<lparr>trace := trace w @ [Monotonic]\<rparr>,
               thr := (thr s)[k := t\<lparr>pc := L41, now := clock w\<rparr>]\<rparr>
         | L41 \<Rightarrow>
             s\<lparr>wld := w,
               thr := (thr s)[k := t\<lparr>pc := L43,
                 secs := sleep_secs (interval (shared s)) (now t) (last' (shared s))\<rparr>]\<rparr>
         | L43 \<Rightarrow>
             s\<lparr>wld := w\<lparr>trace := trace w @ [Sleep (secs t)]\<rparr>,
               thr := (thr s)[k := t\<lparr>pc := Asleep, wake := clock w + secs t\<rparr>]\<rparr>
         | Asleep \<Rightarrow>
             s\<lparr>wld := w\<lparr>clock := max (clock w) (wake t)\<rparr>,
               thr := (thr s)[k := t\<lparr>pc := L44\<rparr>]\<rparr>
         | L44 \<Rightarrow>
             s\<lparr>wld := w\<lparr>trace := trace w @ [Monotonic]\<rparr>,
               shared := (shared s)\<lparr>last' := At (clock w)\<rparr>,
               thr := (thr s)[k := t\<lparr>pc := Returned, stamp := clock w\<rparr>]\<rparr>
         | Returned \<Rightarrow> s\<lparr>wld := w\<rparr>)
      else s\<lparr>wld := w\<rparr>)"

fun run :: "(nat \<times> real) list \<Rightarrow> system \<Rightarrow> system" where
  "run [] s = s"
| "run (e # es) s = run es (step e s)"

text \<open>
  The schedule in which thread \<open>k\<close> takes its steps in a row: the call and the five
  statements of the body are six steps.
\<close>

definition alone :: "nat \<Rightarrow> real list \<Rightarrow> (nat \<times> real) list" where
  "alone k ds = map (\<lambda>d. (k, d)) ds"


section \<open>The response schemas (schemas.py)\<close>

text \<open>
  The schemas are declarations: what \<^verbatim>\<open>model_validate\<close> does with them is pydantic's
  (version 2, where the method exists), a library outside the repository. Its validation
  is modelled as the library documents it. A str field takes a str only. A bool or an int
  field takes a value of its own type as it is; what the lax mode makes of any other
  input is left to the parameters \<open>lax_bool\<close> and \<open>lax_int\<close>, and the parsing of a
  datetime to \<open>to_datetime\<close>. \<open>loads\<close> is the JSON parser behind \<^verbatim>\<open>response.json()\<close>,
  with \<open>None\<close> for a body that is not JSON.
\<close>

record 'dt library =
  loads :: "string \<Rightarrow> json option"
  lax_bool :: "json \<Rightarrow> bool option"
  lax_int :: "json \<Rightarrow> int option"
  to_datetime :: "json \<Rightarrow> 'dt option"

text \<open>
  One line of a \<^verbatim>\<open>ValidationError\<close>: where (\<^verbatim>\<open>loc\<close>, a path of field names and list
  indices) and what (\<^verbatim>\<open>type\<close>). \<open>BoolError\<close>, \<open>IntError\<close> and \<open>DatetimeError\<close> stand
  for the several types pydantic has for an input that is no bool, int or datetime.
\<close>

datatype loc_item = Key string | Idx nat

datatype error_type =
    Missing
  | StringType
  | BoolError
  | IntError
  | DatetimeError
  | LiteralError
  | ListType
  | ModelType

type_synonym error_details = "(loc_item list \<times> error_type) list"

definition under :: "loc_item \<Rightarrow> error_details \<Rightarrow> error_details" where
  "under i es = map (\<lambda>e. (i # fst e, snd e)) es"

definition errs :: "error_details + 'a \<Rightarrow> error_details" where
  "errs r = (case r of Inl es \<Rightarrow> es | Inr a \<Rightarrow> [])"

subsection \<open>Validators of the field types\<close>

definition str_validator :: "json \<Rightarrow> error_details + string" where
  "str_validator j = (case j of JStr s \<Rightarrow> Inr s | _ \<Rightarrow> Inl [([], StringType)])"

definition bool_validator :: "'dt library \<Rightarrow> json \<Rightarrow> error_details + bool" where
  "bool_validator L j =
     (case j of
        JBool b \<Rightarrow> Inr b
      | _ \<Rightarrow> (case lax_bool L j of Some b \<Rightarrow> Inr b | None \<Rightarrow> Inl [([], BoolError)]))"

definition int_validator :: "'dt library \<Rightarrow> json \<Rightarrow> error_details + int" where
  "int_validator L j =
     (case j of
        JInt n \<Rightarrow> Inr n
      | _ \<Rightarrow> (case lax_int L j of Some n \<Rightarrow> Inr n | None \<Rightarrow> Inl [([], IntError)]))"

definition datetime_validator :: "'dt library \<Rightarrow> json \<Rightarrow> error_details + 'dt" where
  "datetime_validator L j =
     (case to_datetime L j of Some t \<Rightarrow> Inr t | None \<Rightarrow> Inl [([], DatetimeError)])"

text \<open>\<^verbatim>\<open>Optional[T]\<close>: \<^verbatim>\<open>None\<close> is accepted, anything else goes to the validator of \<open>T\<close>.\<close>

definition optional_validator ::
  "(json \<Rightarrow> error_details + 'a) \<Rightarrow> json \<Rightarrow> error_details + 'a option" where
  "optional_validator v j =
     (case j of
        JNull \<Rightarrow> Inr None
      | _ \<Rightarrow> (case v j of Inl es \<Rightarrow> Inl es | Inr a \<Rightarrow> Inr (Some a)))"

text \<open>\<^verbatim>\<open>Literal[...]\<close> of strings: the input is one of the listed strings.\<close>

definition literal_validator :: "string list \<Rightarrow> json \<Rightarrow> error_details + string" where
  "literal_validator allowed j =
     (case j of
        JStr s \<Rightarrow> if s \<in> set allowed then Inr s else Inl [([], LiteralError)]
      | _ \<Rightarrow> Inl [([], LiteralError)])"

text \<open>
  \<^verbatim>\<open>list[T]\<close>: the input is a list, every item is validated, and the errors of all
  items are reported, each under its index.
\<close>

fun items_from :: "nat \<Rightarrow> (error_details + 'a) list \<Rightarrow> error_details + 'a list" where
  "items_from i [] = Inr []"
| "items_from i (r # rs) =
     (case (r, items_from (Suc i) rs) of
        (Inr a, Inr as) \<Rightarrow> Inr (a # as)
      | (x, y) \<Rightarrow> Inl (under (Idx i) (errs x) @ errs y))"

definition list_validator ::
  "(json \<Rightarrow> error_details + 'a) \<Rightarrow> json \<Rightarrow> error_details + 'a list" where
  "list_validator v j =
     (case j of JArr xs \<Rightarrow> items_from 0 (map v xs) | _ \<Rightarrow> Inl [([], ListType)])"

text \<open>
  A field of a model: every field of schemas.py is declared with
  \<^verbatim>\<open>Field(description=...)\<close> and no default, so it is required. A key that is absent is
  the error \<open>Missing\<close> at the field; extra keys are ignored.
\<close>

definition get_field ::
  "(string \<times> json) list \<Rightarrow> string \<Rightarrow> (json \<Rightarrow> error_details + 'a) \<Rightarrow> error_details + 'a" where
  "get_field obj name v =
     (case map_of obj name of
        None \<Rightarrow> Inl [([Key name], Missing)]
      | Some x \<Rightarrow> (case v x of Inl es \<Rightarrow> Inl (under (Key name) es) | Inr a \<Rightarrow> Inr a))"

subsection \<open>The models\<close>

text \<open>
  The fields keep the names of schemas.py behind a prefix for the class, since several
  classes share field names.
\<close>

record EditGETResponse =
  eg_text :: string
  eg_exists :: bool
  eg_token :: string

record EditPOSTBody =
  pb_text :: string
  pb_log :: string
  pb_token :: string

record EditPOSTResponse =
  pr_status :: string
  pr_rev :: int

record Namespaces =
  ns_namespace :: string
  ns_count :: int

record Backlinks =
  bl_document :: string
  bl_flags :: string

record BacklinkResponse =
  br_namespaces :: "Namespaces list"
  br_backlinks :: "Backlinks list"
  br_fromm :: "string option"
  br_until :: "string option"

record 'dt DiscussResponse =
  dr_slug :: string
  dr_topic :: string
  dr_updated_date :: 'dt
  dr_status :: string

definition EditGETResponse_validator ::
  "'dt library \<Rightarrow> json \<Rightarrow> error_details + EditGETResponse" where
  "EditGETResponse_validator L j =
     (case j of
        JObj obj \<Rightarrow>
          (case (get_field obj ''text'' str_validator,
                 get_field obj ''exists'' (bool_validator L),
                 get_field obj ''token'' str_validator) of
             (Inr t, Inr e, Inr k) \<Rightarrow> Inr \<lparr>eg_text = t, eg_exists = e, eg_token = k\<rparr>
           | (a, b, c) \<Rightarrow> Inl (errs a @ errs b @ errs c))
      | _ \<Rightarrow> Inl [([], ModelType)])"

definition EditPOSTBody_validator ::
  "'dt library \<Rightarrow> json \<Rightarrow> error_details + EditPOSTBody" where
  "EditPOSTBody_validator L j =
     (case j of
        JObj obj \<Rightarrow>
          (case (get_field obj ''text'' str_validator,
                 get_field obj ''log'' str_validator,
                 get_field obj ''token'' str_validator) of
             (Inr t, Inr l, Inr k) \<Rightarrow> Inr \<lparr>pb_text = t, pb_log = l, pb_token = k\<rparr>
           | (a, b, c) \<Rightarrow> Inl (errs a @ errs b @ errs c))
      | _ \<Rightarrow> Inl [([], ModelType)])"

definition EditPOSTResponse_validator ::
  "'dt library \<Rightarrow> json \<Rightarrow> error_details + EditPOSTResponse" where
  "EditPOSTResponse_validator L j =
     (case j of
        JObj obj \<Rightarrow>
          (case (get_field obj ''status'' str_validator,
                 get_field obj ''rev'' (int_validator L)) of
             (Inr s, Inr r) \<Rightarrow> Inr \<lparr>pr_status = s, pr_rev = r\<rparr>
           | (a, b) \<Rightarrow> Inl (errs a @ errs b))
      | _ \<Rightarrow> Inl [([], ModelType)])"

definition Namespaces_validator :: "'dt library \<Rightarrow> json \<Rightarrow> error_details + Namespaces" where
  "Namespaces_validator L j =
     (case j of
        JObj obj \<Rightarrow>
          (case (get_field obj ''namespace'' str_validator,
                 get_field obj ''count'' (int_validator L)) of
             (Inr n, Inr c) \<Rightarrow> Inr \<lparr>ns_namespace = n, ns_count = c\<rparr>
           | (a, b) \<Rightarrow> Inl (errs a @ errs b))
      | _ \<Rightarrow> Inl [([], ModelType)])"

definition Backlinks_validator :: "'dt library \<Rightarrow> json \<Rightarrow> error_details + Backlinks" where
  "Backlinks_validator L j =
     (case j of
        JObj obj \<Rightarrow>
          (case (get_field obj ''document'' str_validator,
                 get_field obj ''flags'' str_validator) of
             (Inr d, Inr f) \<Rightarrow> Inr \<lparr>bl_document = d, bl_flags = f\<rparr>
           | (a, b) \<Rightarrow> Inl (errs a @ errs b))
      | _ \<Rightarrow> Inl [([], ModelType)])"

definition BacklinkResponse_validator ::
  "'dt library \<Rightarrow> json \<Rightarrow> error_details + BacklinkResponse" where
  "BacklinkResponse_validator L j =
     (case j of
        JObj obj \<Rightarrow>
          (case (get_field obj ''namespaces'' (list_validator (Namespaces_validator L)),
                 get_field obj ''backlinks'' (list_validator (Backlinks_validator L)),
                 get_field obj ''fromm'' (optional_validator str_validator),
                 get_field obj ''until'' (optional_validator str_validator)) of
             (Inr n, Inr b, Inr f, Inr u) \<Rightarrow>
               Inr \<lparr>br_namespaces = n, br_backlinks = b, br_fromm = f, br_until = u\<rparr>
           | (a, b, c, d) \<Rightarrow> Inl (errs a @ errs b @ errs c @ errs d))
      | _ \<Rightarrow> Inl [([], ModelType)])"

definition DiscussResponse_validator ::
  "'dt library \<Rightarrow> json \<Rightarrow> error_details + 'dt DiscussResponse" where
  "DiscussResponse_validator L j =
     (case j of
        JObj obj \<Rightarrow>
          (case (get_field obj ''slug'' str_validator,
                 get_field obj ''topic'' str_validator,
                 get_field obj ''updated_date'' (datetime_validator L),
                 get_field obj ''status'' (literal_validator [''normal'', ''close'', ''pause''])) of
             (Inr s, Inr t, Inr u, Inr st) \<Rightarrow>
               Inr \<lparr>dr_slug = s, dr_topic = t, dr_updated_date = u, dr_status = st\<rparr>
           | (a, b, c, d) \<Rightarrow> Inl (errs a @ errs b @ errs c @ errs d))
      | _ \<Rightarrow> Inl [([], ModelType)])"


section \<open>The client (api.py, class TheSeedAPIClient)\<close>

text \<open>
  The HTTP exchange is the library \<^verbatim>\<open>requests\<close>, outside the repository. A call of
  \<^verbatim>\<open>session.get\<close> or \<^verbatim>\<open>session.post\<close> is recorded with the request it sends, and the
  response that the call hands back (the last one, when requests follows redirects) is
  an input of the operation. Connection failures are outside the model.
\<close>

record response =
  status_code :: int
  content :: string

datatype exn =
    HTTPError response
  | JSONDecodeError
  | ValidationError error_details
  | TypeError

text \<open>
  \<^verbatim>\<open>Response.raise_for_status\<close> of requests raises \<^verbatim>\<open>HTTPError\<close>, which carries the
  response, for a status code from 400 to 599 and returns for every other code.
\<close>

definition raise_for_status :: "response \<Rightarrow> exn option" where
  "raise_for_status r =
     (if 400 \<le> status_code r \<and> status_code r < 600 then Some (HTTPError r) else None)"

definition response_json :: "'dt library \<Rightarrow> response \<Rightarrow> world \<Rightarrow> (exn + json) \<times> world" where
  "response_json L r w =
     ((case loads L (content r) of None \<Rightarrow> Inl JSONDecodeError | Some j \<Rightarrow> Inr j),
      w\<lparr>trace := trace w @ [Json]\<rparr>)"

definition model_validate ::
  "(json \<Rightarrow> error_details + 'a) \<Rightarrow> json \<Rightarrow> world \<Rightarrow> (exn + 'a) \<times> world" where
  "model_validate v j w =
     ((case v j of Inl es \<Rightarrow> Inl (ValidationError es) | Inr a \<Rightarrow> Inr a),
      w\<lparr>trace := trace w @ [Validate]\<rparr>)"

definition session_request :: "request \<Rightarrow> world \<Rightarrow> world" where
  "session_request rq w = w\<lparr>trace := trace w @ [Send rq]\<rparr>"

text \<open>
  How requests encodes \<^verbatim>\<open>params\<close>: an item whose value is \<^verbatim>\<open>None\<close> is left out of the
  query string, every other item is sent.
\<close>

definition encode_params :: "(string \<times> param option) list \<Rightarrow> (string \<times> param) list" where
  "encode_params ps = concat (map (\<lambda>(k, v). case v of None \<Rightarrow> [] | Some x \<Rightarrow> [(k, x)]) ps)"

definition sent :: "world \<Rightarrow> request list" where
  "sent w = concat (map (\<lambda>e. case e of Send rq \<Rightarrow> [rq] | _ \<Rightarrow> []) (trace w))"

text \<open>
  requests keeps the query that a URL already has and appends the encoded \<^verbatim>\<open>params\<close> to
  it. The query of a URL is what stands between the first \<^verbatim>\<open>?\<close> and the fragment, when
  no \<^verbatim>\<open>#\<close> comes before that \<^verbatim>\<open>?\<close>; its parameters are separated by \<^verbatim>\<open>&\<close>, the name of
  each before its \<^verbatim>\<open>=\<close>. \<open>wire_keys\<close> lists the names of the query parameters of the
  request as it goes out.
\<close>

definition url_query :: "string \<Rightarrow> string" where
  "url_query u =
     (case dropWhile (\<lambda>ch. ch \<noteq> CHR ''?'' \<and> ch \<noteq> CHR ''#'') u of
        [] \<Rightarrow> []
      | ch # rest \<Rightarrow> if ch = CHR ''?'' then takeWhile (\<lambda>x. x \<noteq> CHR ''#'') rest else [])"

fun split_on :: "char \<Rightarrow> string \<Rightarrow> string list" where
  "split_on sep [] = [[]]"
| "split_on sep (ch # cs) =
     (if ch = sep then [] # split_on sep cs
      else (case split_on sep cs of [] \<Rightarrow> [[ch]] | p # ps \<Rightarrow> (ch # p) # ps))"

definition wire_keys :: "request \<Rightarrow> string list" where
  "wire_keys rq =
     (if url_query (url rq) = [] then []
      else map (takeWhile (\<lambda>ch. ch \<noteq> CHR ''='')) (split_on CHR ''&'' (url_query (url rq))))
     @ map fst (query rq)"

record client =
  base_url :: string
  api_token :: string
  limiter :: Limiter

definition rstrip_slash :: "string \<Rightarrow> string" where
  "rstrip_slash s = rev (dropWhile (\<lambda>c. c = CHR ''/'') (rev s))"

definition TheSeedAPIClient_init :: "string \<Rightarrow> string \<Rightarrow> Limiter option \<Rightarrow> client" where
  "TheSeedAPIClient_init url_arg token_arg limiter_arg =
     \<lparr>base_url = rstrip_slash url_arg,
      api_token = token_arg,
      limiter = (case limiter_arg of None \<Rightarrow> Limiter_init 0 | Some lm \<Rightarrow> lm)\<rparr>"

text \<open>
  Every operation enters the limiter first (\<^verbatim>\<open>__enter__\<close> calls \<^verbatim>\<open>acquire\<close>), then
  makes its request; \<open>d\<close> are the delays around the acquisition and \<open>r\<close> is the response
  of the server.
\<close>

definition edit_get ::
  "'dt library \<Rightarrow> client \<Rightarrow> delays \<Rightarrow> response \<Rightarrow> string \<Rightarrow> world
     \<Rightarrow> (exn + EditGETResponse) \<times> client \<times> world" where
  "edit_get L c d r document w =
     (let (lm, w1) = acquire (limiter c) d w;
          c1 = c\<lparr>limiter := lm\<rparr>;
          w2 = session_request
                 \<lparr>http_method = GET, url = base_url c @ ''/edit/'' @ document,
                  query = [], json_body = None\<rparr> w1
      in case raise_for_status r of
           Some e \<Rightarrow> (Inl e, c1, w2)
         | None \<Rightarrow>
             (case response_json L r w2 of
                (Inl e, w3) \<Rightarrow> (Inl e, c1, w3)
              | (Inr j, w3) \<Rightarrow>
                  (case model_validate (EditGETResponse_validator L) j w3 of
                     (res, w4) \<Rightarrow> (res, c1, w4))))"

text \<open>
  The body of \<^verbatim>\<open>edit_post\<close> is annotated \<^verbatim>\<open>EditPOSTBody\<close> and documented as a
  dictionary; Python checks neither. requests serializes it with \<^verbatim>\<open>json.dumps\<close>, which
  takes a dict and raises \<^verbatim>\<open>TypeError\<close> for an instance of a pydantic model, before
  anything is sent.
\<close>

datatype post_body = BaseModel EditPOSTBody | Dict "(string \<times> string) list"

definition edit_post ::
  "'dt library \<Rightarrow> client \<Rightarrow> delays \<Rightarrow> response \<Rightarrow> string \<Rightarrow> post_body \<Rightarrow> world
     \<Rightarrow> (exn + EditPOSTResponse) \<times> client \<times> world" where
  "edit_post L c d r document body w =
     (let (lm, w1) = acquire (limiter c) d w;
          c1 = c\<lparr>limiter := lm\<rparr>
      in case body of
           BaseModel b \<Rightarrow> (Inl TypeError, c1, w1)
         | Dict kvs \<Rightarrow>
             (let w2 = session_request
                         \<lparr>http_method = POST, url = base_url c @ ''/edit/'' @ document,
                          query = [],
                          json_body = Some (JObj (map (\<lambda>(k, v). (k, JStr v)) kvs))\<rparr> w1
              in case raise_for_status r of
                   Some e \<Rightarrow> (Inl e, c1, w2)
                 | None \<Rightarrow>
                     (case response_json L r w2 of
                        (Inl e, w3) \<Rightarrow> (Inl e, c1, w3)
                      | (Inr j, w3) \<Rightarrow>
                          (case model_validate (EditPOSTResponse_validator L) j w3 of
                             (res, w4) \<Rightarrow> (res, c1, w4)))))"

definition backlink ::
  "'dt library \<Rightarrow> client \<Rightarrow> delays \<Rightarrow> response \<Rightarrow> string
     \<Rightarrow> string option \<Rightarrow> int option \<Rightarrow> string option \<Rightarrow> string option \<Rightarrow> world
     \<Rightarrow> (exn + BacklinkResponse) \<times> client \<times> world" where
  "backlink L c d r document namespace flag fromm until w =
     (let params = [(''namespace'', map_option PStr namespace),
                    (''flag'', map_option PInt flag),
                    (''from'', map_option PStr fromm),
                    (''until'', map_option PStr until)];
          (lm, w1) = acquire (limiter c) d w;
          c1 = c\<lparr>limiter := lm\<rparr>;
          w2 = session_request
                 \<lparr>http_method = GET, url = base_url c @ ''/backlink/'' @ document,
                  query = encode_params params, json_body = None\<rparr> w1
      in case raise_for_status r of
           Some e \<Rightarrow> (Inl e, c1, w2)
         | None \<Rightarrow>
             (case response_json L r w2 of
                (Inl e, w3) \<Rightarrow> (Inl e, c1, w3)
              | (Inr j, w3) \<Rightarrow>
                  (case model_validate (BacklinkResponse_validator L) j w3 of
                     (res, w4) \<Rightarrow> (res, c1, w4))))"

text \<open>
  The comprehension of \<^verbatim>\<open>discuss\<close> iterates over whatever the body holds: the items
  of a list, the keys of a dict, the characters of a str; anything else is not iterable.
  The first item that fails validation raises, and the list built so far is dropped.
\<close>

definition py_iter :: "json \<Rightarrow> json list option" where
  "py_iter j =
     (case j of
        JArr xs \<Rightarrow> Some xs
      | JObj kvs \<Rightarrow> Some (map (\<lambda>kv. JStr (fst kv)) kvs)
      | JStr s \<Rightarrow> Some (map (\<lambda>ch. JStr [ch]) s)
      | _ \<Rightarrow> None)"

fun validate_items ::
  "(json \<Rightarrow> error_details + 'a) \<Rightarrow> json list \<Rightarrow> world \<Rightarrow> (exn + 'a list) \<times> world" where
  "validate_items v [] w = (Inr [], w)"
| "validate_items v (x # xs) w =
     (case model_validate v x w of
        (Inl e, w1) \<Rightarrow> (Inl e, w1)
      | (Inr a, w1) \<Rightarrow>
          (case validate_items v xs w1 of
             (Inl e, w2) \<Rightarrow> (Inl e, w2)
           | (Inr as, w2) \<Rightarrow> (Inr (a # as), w2)))"

definition discuss ::
  "'dt library \<Rightarrow> client \<Rightarrow> delays \<Rightarrow> response \<Rightarrow> string \<Rightarrow> world
     \<Rightarrow> (exn + 'dt DiscussResponse list) \<times> client \<times> world" where
  "discuss L c d r document w =
     (let (lm, w1) = acquire (limiter c) d w;
          c1 = c\<lparr>limiter := lm\<rparr>;
          w2 = session_request
                 \<lparr>http_method = GET, url = base_url c @ ''/discuss/'' @ document,
                  query = [], json_body = None\<rparr> w1
      in case raise_for_status r of
           Some e \<Rightarrow> (Inl e, c1, w2)
         | None \<Rightarrow>
             (case response_json L r w2 of
                (Inl e, w3) \<Rightarrow> (Inl e, c1, w3)
              | (Inr j, w3) \<Rightarrow>
                  (case py_iter j of
                     None \<Rightarrow> (Inl TypeError, c1, w3)
                   | Some xs \<Rightarrow>
                       (case validate_items (DiscussResponse_validator L) xs w3 of
                          (res, w4) \<Rightarrow> (res, c1, w4)))))"


subsection \<open>What the properties speak of\<close>

text \<open>The calls that parse or validate a body, among the calls recorded in a world.\<close>

definition parses :: "world \<Rightarrow> event list" where
  "parses w = filter (\<lambda>e. e = Json \<or> e = Validate) (trace w)"

text \<open>A result is a \<^verbatim>\<open>ValidationError\<close> with a line that reports field \<open>f\<close> as missing.\<close>

definition names_missing :: "exn + 'a \<Rightarrow> string \<Rightarrow> bool" where
  "names_missing res f =
     (case res of Inl (ValidationError es) \<Rightarrow> ([Key f], Missing) \<in> set es | _ \<Rightarrow> False)"

text \<open>
  The JSON form of the two nested models, as \<^verbatim>\<open>model_dump\<close> gives it: the payload that
  matches the model field by field.
\<close>

definition Namespaces_dump :: "Namespaces \<Rightarrow> json" where
  "Namespaces_dump n = JObj [(''namespace'', JStr (ns_namespace n)), (''count'', JInt (ns_count n))]"

definition Backlinks_dump :: "Backlinks \<Rightarrow> json" where
  "Backlinks_dump b = JObj [(''document'', JStr (bl_document b)), (''flags'', JStr (bl_flags b))]"

text \<open>
  For the worked examples: a stand-in for the libraries that parses the bodies it is
  given in a table, coerces nothing in lax mode and reads an int as a Unix timestamp;
  an environment that adds no delay; a client of a wiki without a limiter.
\<close>

definition example_library :: "(string \<times> json) list \<Rightarrow> int library" where
  "example_library bodies =
     \<lparr>loads = map_of bodies,
      lax_bool = (\<lambda>j. None),
      lax_int = (\<lambda>j. None),
      to_datetime = (\<lambda>j. case j of JInt n \<Rightarrow> Some n | _ \<Rightarrow> None)\<rparr>"

definition no_delay :: delays where
  "no_delay = \<lparr>gap = 0, compute = 0, oversleep = 0, reread = 0\<rparr>"

definition example_client :: client where
  "example_client = TheSeedAPIClient_init ''https://wiki.example/api/'' ''token'' None"


section \<open>Properties of the rate limiter\<close>

lemma Limiter_acquire_fields:
  "interval (fst (Limiter_acquire lm d w)) = interval lm"
  "acquire_patched (fst (Limiter_acquire lm d w)) = acquire_patched lm"
  "last' (fst (Limiter_acquire lm d w)) = At (clock (snd (Limiter_acquire lm d w)))"
  by (simp_all add: Limiter_acquire_def monotonic_def sleep_def pass_def Let_def)

lemma Limiter_acquire_waits:
  assumes "last' lm = At t0" and "0 \<le> compute d" and "0 \<le> oversleep d" and "0 \<le> reread d"
  shows "t0 + interval lm \<le> clock (snd (Limiter_acquire lm d w))"
  using assms
  by (simp add: Limiter_acquire_def monotonic_def sleep_def pass_def sleep_secs_def Let_def max_def)

lemma acquire_all_spaced_from:
  assumes "\<not> acquire_patched lm" and "list_all delays_ok ds"
  shows "spaced (interval lm) (map (\<lambda>s. clock (snd s)) (acquire_all lm ds w)) \<and>
         (\<forall>t0. last' lm = At t0 \<longrightarrow>
            spaced (interval lm) (t0 # map (\<lambda>s. clock (snd s)) (acquire_all lm ds w)))"
  using assms
proof (induction ds arbitrary: lm w)
  case Nil
  show ?case by simp
next
  case (Cons d ds)
  define w0 where "w0 = pass (gap d) w"
  define lm1 where "lm1 = fst (Limiter_acquire lm d w0)"
  define w1 where "w1 = snd (Limiter_acquire lm d w0)"
  have ok: "delays_ok d" and oks: "list_all delays_ok ds"
    using Cons.prems(2) by simp_all
  have step: "acquire_all lm (d # ds) w = (lm1, w1) # acquire_all lm1 ds w1"
    using Cons.prems(1) by (simp add: acquire_def lm1_def w1_def w0_def split: prod.splits)
  have i1: "interval lm1 = interval lm" and p1: "\<not> acquire_patched lm1"
    and l1: "last' lm1 = At (clock w1)"
    using Cons.prems(1) by (simp_all add: lm1_def w1_def Limiter_acquire_fields)
  from Cons.IH [OF p1 oks, of w1] l1 i1
  have tl: "spaced (interval lm) (clock w1 # map (\<lambda>s. clock (snd s)) (acquire_all lm1 ds w1))"
    by simp
  have hd: "t0 + interval lm \<le> clock w1" if "last' lm = At t0" for t0
    using Limiter_acquire_waits [OF that, of d w0] ok by (simp add: delays_ok_def w1_def)
  show ?case
    unfolding step using tl hd by simp
qed

text \<open>
  C1. A limiter built with an interval \<open>i > 0\<close> is called any number of times in
  sequence, with any non-negative delays of the environment before, inside and between
  the calls. Then the times at which successive calls return are at least \<open>i\<close> apart, and
  each call leaves in \<open>last\<close> the time at which it returned (the clock read after the
  sleep), which is what the next call measures its wait against.
\<close>

theorem acquire_spacing:
  assumes "0 < i" and "list_all delays_ok ds"
  shows "spaced i (map (\<lambda>s. clock (snd s)) (acquire_all (Limiter_init i) ds w)) \<and>
         list_all (\<lambda>(lm, w1). last' lm = At (clock w1)) (acquire_all (Limiter_init i) ds w)"
proof -
  have np: "\<not> acquire_patched (Limiter_init i)" and iv: "interval (Limiter_init i) = i"
    using assms(1) by (simp_all add: Limiter_init_def)
  have "list_all (\<lambda>(lm, w1). last' lm = At (clock w1)) (acquire_all lm ds w)"
    if "\<not> acquire_patched lm" for lm
    using that
  proof (induction ds arbitrary: lm w)
    case Nil
    show ?case by simp
  next
    case (Cons d ds)
    then show ?case
      by (simp add: acquire_def Limiter_acquire_fields split: prod.splits)
        (metis Limiter_acquire_fields(2,3) fst_conv snd_conv)
  qed
  with acquire_all_spaced_from [OF np assms(2), of w] iv np show ?thesis
    by simp
qed

theorem acquire_spacing_witness:
  "(0::real) < 1 \<and>
   list_all delays_ok
     [\<lparr>gap = 0, compute = 0, oversleep = 0, reread = 0\<rparr>,
      \<lparr>gap = 1/4, compute = 0, oversleep = 1/8, reread = 0\<rparr>,
      \<lparr>gap = 3, compute = 0, oversleep = 0, reread = 0\<rparr>] \<and>
   map (\<lambda>s. clock (snd s)) (acquire_all (Limiter_init 1)
     [\<lparr>gap = 0, compute = 0, oversleep = 0, reread = 0\<rparr>,
      \<lparr>gap = 1/4, compute = 0, oversleep = 1/8, reread = 0\<rparr>,
      \<lparr>gap = 3, compute = 0, oversleep = 0, reread = 0\<rparr>] \<lparr>clock = 10, trace = []\<rparr>)
     = [10, 89/8, 113/8] \<and>
   spaced 1 (map (\<lambda>s. clock (snd s)) (acquire_all (Limiter_init 1)
     [\<lparr>gap = 0, compute = 0, oversleep = 0, reread = 0\<rparr>,
      \<lparr>gap = 1/4, compute = 0, oversleep = 1/8, reread = 0\<rparr>,
      \<lparr>gap = 3, compute = 0, oversleep = 0, reread = 0\<rparr>] \<lparr>clock = 10, trace = []\<rparr>))"
  using acquire_spacing [of 1
     "[\<lparr>gap = 0, compute = 0, oversleep = 0, reread = 0\<rparr>,
      \<lparr>gap = 1/4, compute = 0, oversleep = 1/8, reread = 0\<rparr>,
      \<lparr>gap = 3, compute = 0, oversleep = 0, reread = 0\<rparr>]" "\<lparr>clock = 10, trace = []\<rparr>"]
  by (simp add: delays_ok_def Limiter_init_def acquire_def Limiter_acquire_def monotonic_def
      sleep_def pass_def sleep_secs_def)

lemma acquire_all_patched:
  "acquire_patched lm \<Longrightarrow>
   map (\<lambda>s. (fst s, trace (snd s))) (acquire_all lm ds w) = replicate (length ds) (lm, trace w)"
  by (induction ds arbitrary: w) (simp_all add: acquire_def pass_def)

lemma acquire_all_patched_each:
  "acquire_patched lm \<Longrightarrow> trace w = tr \<Longrightarrow>
   list_all (\<lambda>s. fst s = lm \<and> trace (snd s) = tr) (acquire_all lm ds w)"
  by (induction ds arbitrary: w) (simp_all add: acquire_def pass_def)

text \<open>
  C2. With the interval exactly zero a call of \<^verbatim>\<open>acquire\<close> changes nothing: the limiter
  and the world come back as they were, so no clock is read and no sleep is called. The
  same holds after any number of calls, whatever time passes between them: the limiter
  is the one that was built, and the calls made to the primitives are those made before.
\<close>

theorem acquire_zero_noop:
  "acquire (Limiter_init 0) d w = (Limiter_init 0, w) \<and>
   map (\<lambda>s. (fst s, trace (snd s))) (acquire_all (Limiter_init 0) ds w)
     = replicate (length ds) (Limiter_init 0, trace w) \<and>
   list_all (\<lambda>s. sleeps (snd s) = sleeps w \<and> clock_reads (snd s) = clock_reads w)
     (acquire_all (Limiter_init 0) ds w)"
proof -
  have p: "acquire_patched (Limiter_init 0)"
    by (simp add: Limiter_init_def)
  from acquire_all_patched_each [OF p refl, of w ds] have "list_all (\<lambda>s. sleeps (snd s) = sleeps w \<and> clock_reads (snd s) = clock_reads w)
     (acquire_all (Limiter_init 0) ds w)"
    using p by (simp add: list_all_iff sleeps_def clock_reads_def)
  then show ?thesis
    using p acquire_all_patched [OF p] by (simp add: acquire_def)
qed

theorem acquire_zero_noop_witness:
  "acquire (Limiter_init 0) \<lparr>gap = 0, compute = 0, oversleep = 0, reread = 0\<rparr> \<lparr>clock = 5, trace = []\<rparr>
     = (\<lparr>interval = 0, acquire_patched = True, last' = NegInf\<rparr>, \<lparr>clock = 5, trace = []\<rparr>) \<and>
   map (\<lambda>s. sleeps (snd s)) (acquire_all (Limiter_init 0)
     [\<lparr>gap = 0, compute = 0, oversleep = 0, reread = 0\<rparr>,
      \<lparr>gap = 0, compute = 0, oversleep = 0, reread = 0\<rparr>] \<lparr>clock = 5, trace = []\<rparr>) = [[], []]"
  using acquire_zero_noop [of "\<lparr>gap = 0, compute = 0, oversleep = 0, reread = 0\<rparr>"
      "\<lparr>clock = 5, trace = []\<rparr>"
      "[\<lparr>gap = 0, compute = 0, oversleep = 0, reread = 0\<rparr>,
        \<lparr>gap = 0, compute = 0, oversleep = 0, reread = 0\<rparr>]"]
  by (simp add: Limiter_init_def sleeps_def acquire_def pass_def)

text \<open>
  C10. A limiter built with any interval \<open>i \<le> 0\<close>, negative ones included, has its
  \<^verbatim>\<open>acquire\<close> replaced when it is built: every call returns the limiter and the world
  unchanged, so it never sleeps and \<open>last\<close> stays at its initial value, after any number
  of calls.
\<close>

theorem acquire_nonpositive_noop:
  assumes "i \<le> 0"
  shows "acquire_patched (Limiter_init i) \<and>
         acquire (Limiter_init i) d w = (Limiter_init i, w) \<and>
         map (\<lambda>s. (fst s, trace (snd s))) (acquire_all (Limiter_init i) ds w)
           = replicate (length ds) (Limiter_init i, trace w) \<and>
         list_all (\<lambda>s. last' (fst s) = NegInf \<and> sleeps (snd s) = sleeps w)
           (acquire_all (Limiter_init i) ds w)"
proof -
  have p: "acquire_patched (Limiter_init i)"
    using assms by (simp add: Limiter_init_def)
  have eq: "map (\<lambda>s. (fst s, trace (snd s))) (acquire_all (Limiter_init i) ds w)
           = replicate (length ds) (Limiter_init i, trace w)"
    by (rule acquire_all_patched [OF p])
  from acquire_all_patched_each [OF p refl, of w ds]
  have "list_all (\<lambda>s. last' (fst s) = NegInf \<and> sleeps (snd s) = sleeps w)
           (acquire_all (Limiter_init i) ds w)"
    by (simp add: list_all_iff sleeps_def Limiter_init_def)
  then show ?thesis
    using p eq by (simp add: acquire_def)
qed

theorem acquire_nonpositive_noop_witness:
  "(- 2::real) \<le> 0 \<and>
   acquire (Limiter_init (- 2)) \<lparr>gap = 0, compute = 0, oversleep = 0, reread = 0\<rparr>
       \<lparr>clock = 5, trace = []\<rparr>
     = (\<lparr>interval = - 2, acquire_patched = True, last' = NegInf\<rparr>, \<lparr>clock = 5, trace = []\<rparr>) \<and>
   map (\<lambda>s. (last' (fst s), sleeps (snd s))) (acquire_all (Limiter_init (- 2))
     [\<lparr>gap = 1, compute = 0, oversleep = 0, reread = 0\<rparr>,
      \<lparr>gap = 0, compute = 0, oversleep = 0, reread = 0\<rparr>] \<lparr>clock = 5, trace = []\<rparr>)
     = [(NegInf, []), (NegInf, [])]"
  using acquire_nonpositive_noop [of "- 2" "\<lparr>gap = 0, compute = 0, oversleep = 0, reread = 0\<rparr>"
      "\<lparr>clock = 5, trace = []\<rparr>"
      "[\<lparr>gap = 1, compute = 0, oversleep = 0, reread = 0\<rparr>,
        \<lparr>gap = 0, compute = 0, oversleep = 0, reread = 0\<rparr>]"]
  by (simp add: Limiter_init_def sleeps_def acquire_def pass_def)

subsection \<open>Callers on several threads\<close>

lemma six_elements: "length ds = 6 \<Longrightarrow> \<exists>a b c d e f. ds = [a, b, c, d, e, f]"
  by (simp add: numeral_eq_Suc length_Suc_conv) blast

text \<open>
  C9, as the code has it. \<^verbatim>\<open>acquire\<close> is not atomic: the read of \<open>last\<close> on line 41 and
  its update on line 44 are separate steps with the sleep between them. What holds is
  the spacing of calls that do not overlap. The limiter is as \<^verbatim>\<open>__init__\<close> leaves it
  (its \<^verbatim>\<open>acquire\<close> replaced exactly when the interval is not positive), in any state of
  \<open>last\<close>. When one thread runs its call to the end before the other starts, both
  return, and the second returns at least the interval after the first. On an enabled
  limiter \<open>last\<close> is then the time of the second return; on a disabled one the calls
  leave \<open>last\<close> and the trace of the primitives as they were.
\<close>

theorem serial_callers_spaced:
  assumes "list_all (\<lambda>d. 0 \<le> d) ds" and "list_all (\<lambda>d. 0 \<le> d) es"
    and "length ds = 6" and "length es = 6"
    and "acquire_patched lm = (interval lm \<le> 0)"
  shows "map pc (thr (run (alone 0 ds @ alone 1 es) (start lm 2 w))) = [Returned, Returned] \<and>
     stamp (thr (run (alone 0 ds @ alone 1 es) (start lm 2 w)) ! 0) + interval lm
       \<le> stamp (thr (run (alone 0 ds @ alone 1 es) (start lm 2 w)) ! 1) \<and>
     last' (shared (run (alone 0 ds @ alone 1 es) (start lm 2 w)))
       = (if acquire_patched lm then last' lm
          else At (stamp (thr (run (alone 0 ds @ alone 1 es) (start lm 2 w)) ! 1))) \<and>
     (if acquire_patched lm
      then trace (wld (run (alone 0 ds @ alone 1 es) (start lm 2 w))) = trace w
      else sleeps (wld (run (alone 0 ds @ alone 1 es) (start lm 2 w))) \<noteq> sleeps w)"
proof -
  obtain a b c d e f where ds: "ds = [a, b, c, d, e, f]"
    using six_elements [OF assms(3)] by blast
  obtain a' b' c' d' e' f' where es: "es = [a', b', c', d', e', f']"
    using six_elements [OF assms(4)] by blast
  show ?thesis
  proof (cases "acquire_patched lm")
    case True
    then have "interval lm \<le> 0"
      using assms(5) by simp
    then show ?thesis
      using True assms(1,2) unfolding ds es
      by (simp add: alone_def start_def step_def pass_def Let_def numeral_2_eq_2)
  next
    case False
    then show ?thesis
      using assms(1,2) unfolding ds es
      by (simp add: alone_def start_def step_def pass_def sleep_secs_def sleeps_def Let_def
          numeral_2_eq_2 max_def split: timestamp.splits)
  qed
qed

theorem serial_callers_spaced_witness:
  "list_all (\<lambda>d. 0 \<le> d) [0, 0, 0, 0, 0, 0 :: real] \<and>
   list_all (\<lambda>d. 0 \<le> d) [1/4, 0, 0, 0, 0, 0 :: real] \<and>
   acquire_patched (Limiter_init 1) = (interval (Limiter_init 1) \<le> 0) \<and>
   map stamp (thr (run (alone 0 [0, 0, 0, 0, 0, 0] @ alone 1 [1/4, 0, 0, 0, 0, 0])
     (start (Limiter_init 1) 2 \<lparr>clock = 10, trace = []\<rparr>))) = [10, 11] \<and>
   last' (shared (run (alone 0 [0, 0, 0, 0, 0, 0] @ alone 1 [1/4, 0, 0, 0, 0, 0])
     (start (Limiter_init 1) 2 \<lparr>clock = 10, trace = []\<rparr>))) = At 11 \<and>
   acquire_patched (Limiter_init 0) = (interval (Limiter_init 0) \<le> 0) \<and>
   map stamp (thr (run (alone 0 [0, 0, 0, 0, 0, 0] @ alone 1 [1/4, 0, 0, 0, 0, 0])
     (start (Limiter_init 0) 2 \<lparr>clock = 10, trace = []\<rparr>))) = [10, 41/4] \<and>
   last' (shared (run (alone 0 [0, 0, 0, 0, 0, 0] @ alone 1 [1/4, 0, 0, 0, 0, 0])
     (start (Limiter_init 0) 2 \<lparr>clock = 10, trace = []\<rparr>))) = NegInf \<and>
   trace (wld (run (alone 0 [0, 0, 0, 0, 0, 0] @ alone 1 [1/4, 0, 0, 0, 0, 0])
     (start (Limiter_init 0) 2 \<lparr>clock = 10, trace = []\<rparr>))) = []"
  using serial_callers_spaced [of "[0, 0, 0, 0, 0, 0]" "[1/4, 0, 0, 0, 0, 0]" "Limiter_init 1"
      "\<lparr>clock = 10, trace = []\<rparr>"]
    serial_callers_spaced [of "[0, 0, 0, 0, 0, 0]" "[1/4, 0, 0, 0, 0, 0]" "Limiter_init 0"
      "\<lparr>clock = 10, trace = []\<rparr>"]
  by (simp add: alone_def start_def step_def pass_def sleep_secs_def Let_def numeral_2_eq_2
      Limiter_init_def)

text \<open>
  C9 as stated fails. Thread 0 acquires alone and returns at time 10. A quarter of a
  second later threads 1 and 2 both read the clock and \<open>last\<close> before either sleeps:
  both compute the same wait of 3/4 from the same \<open>last\<close>, both sleep it, and both return
  at time 11, no time apart with an interval of 1.
\<close>

theorem concurrent_callers_counterexample:
  "map pc (thr (run (alone 0 [0, 0, 0, 0, 0, 0] @
       [(1, 1/4), (1, 0), (1, 0), (2, 0), (2, 0), (2, 0),
        (1, 0), (2, 0), (1, 0), (2, 0), (1, 0), (2, 0)])
     (start (Limiter_init 1) 3 \<lparr>clock = 10, trace = []\<rparr>))) = [Returned, Returned, Returned] \<and>
   map secs (thr (run (alone 0 [0, 0, 0, 0, 0, 0] @
       [(1, 1/4), (1, 0), (1, 0), (2, 0), (2, 0), (2, 0),
        (1, 0), (2, 0), (1, 0), (2, 0), (1, 0), (2, 0)])
     (start (Limiter_init 1) 3 \<lparr>clock = 10, trace = []\<rparr>))) = [0, 3/4, 3/4] \<and>
   map stamp (thr (run (alone 0 [0, 0, 0, 0, 0, 0] @
       [(1, 1/4), (1, 0), (1, 0), (2, 0), (2, 0), (2, 0),
        (1, 0), (2, 0), (1, 0), (2, 0), (1, 0), (2, 0)])
     (start (Limiter_init 1) 3 \<lparr>clock = 10, trace = []\<rparr>))) = [10, 11, 11] \<and>
   \<not> spaced 1 (map stamp (thr (run (alone 0 [0, 0, 0, 0, 0, 0] @
       [(1, 1/4), (1, 0), (1, 0), (2, 0), (2, 0), (2, 0),
        (1, 0), (2, 0), (1, 0), (2, 0), (1, 0), (2, 0)])
     (start (Limiter_init 1) 3 \<lparr>clock = 10, trace = []\<rparr>))))"
  by (simp add: alone_def start_def step_def Limiter_init_def pass_def sleep_secs_def Let_def
      numeral_3_eq_3)

section \<open>Properties of the schemas\<close>

lemma get_field_missing:
  "map_of obj f = None \<Longrightarrow> get_field obj f v = Inl [([Key f], Missing)]"
  by (simp add: get_field_def)

lemma errs_simps: "errs (Inl es) = es" "errs (Inr a) = []"
  by (simp_all add: errs_def)

lemma get_field_update_other:
  "f \<noteq> k \<Longrightarrow> get_field (AList.update k x obj) f v = get_field obj f v"
  by (simp add: get_field_def update_conv')

lemma get_field_update_same:
  "get_field (AList.update k x obj) k v =
     (case v x of Inl es \<Rightarrow> Inl (under (Key k) es) | Inr a \<Rightarrow> Inr a)"
  by (simp add: get_field_def update_conv')

lemma EditGETResponse_missing:
  assumes "map_of obj f = None" and "f \<in> set [''text'', ''exists'', ''token'']"
  shows "names_missing (fst (model_validate (EditGETResponse_validator L) (JObj obj) w)) f"
  using assms
  by (auto simp: names_missing_def model_validate_def EditGETResponse_validator_def
      get_field_missing errs_simps split: sum.splits)

lemma EditPOSTBody_missing:
  assumes "map_of obj f = None" and "f \<in> set [''text'', ''log'', ''token'']"
  shows "names_missing (fst (model_validate (EditPOSTBody_validator L) (JObj obj) w)) f"
  using assms
  by (auto simp: names_missing_def model_validate_def EditPOSTBody_validator_def
      get_field_missing errs_simps split: sum.splits)

lemma EditPOSTResponse_missing:
  assumes "map_of obj f = None" and "f \<in> set [''status'', ''rev'']"
  shows "names_missing (fst (model_validate (EditPOSTResponse_validator L) (JObj obj) w)) f"
  using assms
  by (auto simp: names_missing_def model_validate_def EditPOSTResponse_validator_def
      get_field_missing errs_simps split: sum.splits)

lemma Namespaces_missing:
  assumes "map_of obj f = None" and "f \<in> set [''namespace'', ''count'']"
  shows "names_missing (fst (model_validate (Namespaces_validator L) (JObj obj) w)) f"
  using assms
  by (auto simp: names_missing_def model_validate_def Namespaces_validator_def
      get_field_missing errs_simps split: sum.splits)

lemma Backlinks_missing:
  assumes "map_of obj f = None" and "f \<in> set [''document'', ''flags'']"
  shows "names_missing (fst (model_validate (Backlinks_validator L) (JObj obj) w)) f"
  using assms
  by (auto simp: names_missing_def model_validate_def Backlinks_validator_def
      get_field_missing errs_simps split: sum.splits)

lemma BacklinkResponse_missing:
  assumes "map_of obj f = None" and "f \<in> set [''namespaces'', ''backlinks'', ''fromm'', ''until'']"
  shows "names_missing (fst (model_validate (BacklinkResponse_validator L) (JObj obj) w)) f"
  using assms
  by (auto simp: names_missing_def model_validate_def BacklinkResponse_validator_def
      get_field_missing errs_simps split: sum.splits)

lemma DiscussResponse_missing:
  assumes "map_of obj f = None" and "f \<in> set [''slug'', ''topic'', ''updated_date'', ''status'']"
  shows "names_missing (fst (model_validate (DiscussResponse_validator L) (JObj obj) w)) f"
  using assms
  by (auto simp: names_missing_def model_validate_def DiscussResponse_validator_def
      get_field_missing errs_simps split: sum.splits)

text \<open>
  C6. A payload is an object in which a field \<open>f\<close> that the schema declares is absent.
  Then \<^verbatim>\<open>model_validate\<close> raises a \<^verbatim>\<open>ValidationError\<close>, and one of its lines reports
  \<open>f\<close> as missing. This holds for each of the seven schemas and each of their fields.
\<close>

theorem missing_field_named:
  assumes "map_of obj f = None"
  shows
    "(f \<in> set [''text'', ''exists'', ''token''] \<longrightarrow>
        names_missing (fst (model_validate (EditGETResponse_validator L) (JObj obj) w)) f) \<and>
     (f \<in> set [''text'', ''log'', ''token''] \<longrightarrow>
        names_missing (fst (model_validate (EditPOSTBody_validator L) (JObj obj) w)) f) \<and>
     (f \<in> set [''status'', ''rev''] \<longrightarrow>
        names_missing (fst (model_validate (EditPOSTResponse_validator L) (JObj obj) w)) f) \<and>
     (f \<in> set [''namespace'', ''count''] \<longrightarrow>
        names_missing (fst (model_validate (Namespaces_validator L) (JObj obj) w)) f) \<and>
     (f \<in> set [''document'', ''flags''] \<longrightarrow>
        names_missing (fst (model_validate (Backlinks_validator L) (JObj obj) w)) f) \<and>
     (f \<in> set [''namespaces'', ''backlinks'', ''fromm'', ''until''] \<longrightarrow>
        names_missing (fst (model_validate (BacklinkResponse_validator L) (JObj obj) w)) f) \<and>
     (f \<in> set [''slug'', ''topic'', ''updated_date'', ''status''] \<longrightarrow>
        names_missing (fst (model_validate (DiscussResponse_validator L) (JObj obj) w)) f)"
  using EditGETResponse_missing [OF assms] EditPOSTBody_missing [OF assms]
    EditPOSTResponse_missing [OF assms] Namespaces_missing [OF assms]
    Backlinks_missing [OF assms] BacklinkResponse_missing [OF assms]
    DiscussResponse_missing [OF assms]
  by blast

theorem missing_field_named_witness:
  "map_of [(''text'', JStr ''hi''), (''exists'', JBool True)] ''token'' = None \<and>
   ''token'' \<in> set [''text'', ''exists'', ''token''] \<and>
   names_missing (fst (model_validate (EditGETResponse_validator (example_library []))
     (JObj [(''text'', JStr ''hi''), (''exists'', JBool True)]) \<lparr>clock = 0, trace = []\<rparr>)) ''token'' \<and>
   fst (model_validate (EditGETResponse_validator (example_library []))
     (JObj [(''text'', JStr ''hi''), (''exists'', JBool True)]) \<lparr>clock = 0, trace = []\<rparr>)
     = Inl (ValidationError [([Key ''token''], Missing)])"
  using missing_field_named [of "[(''text'', JStr ''hi''), (''exists'', JBool True)]" "''token''"
      "example_library []" "\<lparr>clock = 0, trace = []\<rparr>"]
  by (simp add: model_validate_def EditGETResponse_validator_def get_field_def str_validator_def
      bool_validator_def errs_def)

lemma items_from_Inr: "items_from i (map Inr xs) = Inr xs"
  by (induction xs arbitrary: i) simp_all

lemma list_validator_dump:
  assumes "\<And>x. v (dump x) = Inr x"
  shows "list_validator v (JArr (map dump xs)) = Inr xs"
proof -
  have "map v (map dump xs) = map Inr xs"
    using assms by simp
  then show ?thesis
    by (simp add: list_validator_def items_from_Inr del: map_map)
qed

lemma Namespaces_roundtrip: "Namespaces_validator L (Namespaces_dump n) = Inr n"
  by (simp add: Namespaces_validator_def Namespaces_dump_def get_field_def str_validator_def
      int_validator_def)

lemma Backlinks_roundtrip: "Backlinks_validator L (Backlinks_dump b) = Inr b"
  by (simp add: Backlinks_validator_def Backlinks_dump_def get_field_def str_validator_def)

text \<open>
  A payload that holds every field of a schema of schemas.py under the declared name,
  with a value of the declared type, validates to the model with the same field values.
\<close>

lemma EditGETResponse_roundtrip:
  assumes "map_of obj ''text'' = Some (JStr t)" and "map_of obj ''exists'' = Some (JBool e)"
    and "map_of obj ''token'' = Some (JStr k)"
  shows "EditGETResponse_validator L (JObj obj) = Inr \<lparr>eg_text = t, eg_exists = e, eg_token = k\<rparr>"
  using assms
  by (simp add: EditGETResponse_validator_def get_field_def str_validator_def bool_validator_def)

lemma EditPOSTBody_roundtrip:
  assumes "map_of obj ''text'' = Some (JStr t)" and "map_of obj ''log'' = Some (JStr l)"
    and "map_of obj ''token'' = Some (JStr k)"
  shows "EditPOSTBody_validator L (JObj obj) = Inr \<lparr>pb_text = t, pb_log = l, pb_token = k\<rparr>"
  using assms
  by (simp add: EditPOSTBody_validator_def get_field_def str_validator_def)

lemma EditPOSTResponse_roundtrip:
  assumes "map_of obj ''status'' = Some (JStr s)" and "map_of obj ''rev'' = Some (JInt n)"
  shows "EditPOSTResponse_validator L (JObj obj) = Inr \<lparr>pr_status = s, pr_rev = n\<rparr>"
  using assms
  by (simp add: EditPOSTResponse_validator_def get_field_def str_validator_def int_validator_def)

lemma BacklinkResponse_roundtrip:
  assumes "map_of obj ''namespaces'' = Some (JArr (map Namespaces_dump ns))"
    and "map_of obj ''backlinks'' = Some (JArr (map Backlinks_dump bs))"
    and "map_of obj ''fromm'' = Some (case f of None \<Rightarrow> JNull | Some x \<Rightarrow> JStr x)"
    and "map_of obj ''until'' = Some (case u of None \<Rightarrow> JNull | Some x \<Rightarrow> JStr x)"
  shows "BacklinkResponse_validator L (JObj obj)
           = Inr \<lparr>br_namespaces = ns, br_backlinks = bs, br_fromm = f, br_until = u\<rparr>"
  using assms list_validator_dump [of "Namespaces_validator L" Namespaces_dump ns]
    list_validator_dump [of "Backlinks_validator L" Backlinks_dump bs]
  by (simp add: BacklinkResponse_validator_def get_field_def Namespaces_roundtrip
      Backlinks_roundtrip optional_validator_def str_validator_def split: option.splits)

lemma DiscussResponse_roundtrip:
  assumes "map_of obj ''slug'' = Some (JStr a)" and "map_of obj ''topic'' = Some (JStr b)"
    and "map_of obj ''updated_date'' = Some u" and "to_datetime L u = Some t"
    and "map_of obj ''status'' = Some (JStr s)" and "s \<in> set [''normal'', ''close'', ''pause'']"
  shows "DiscussResponse_validator L (JObj obj)
           = Inr \<lparr>dr_slug = a, dr_topic = b, dr_updated_date = t, dr_status = s\<rparr>"
  using assms
  by (auto simp: DiscussResponse_validator_def get_field_def literal_validator_def
      str_validator_def datetime_validator_def)

section \<open>Properties of the client\<close>

lemma sent_acquire: "sent (snd (acquire lm d w)) = sent w"
  by (simp add: acquire_def Limiter_acquire_def monotonic_def sleep_def pass_def sent_def Let_def)

lemma parses_acquire: "parses (snd (acquire lm d w)) = parses w"
  by (simp add: acquire_def Limiter_acquire_def monotonic_def sleep_def pass_def parses_def Let_def)

lemma edit_get_result:
  "fst (edit_get L c d r doc w) =
     (if 400 \<le> status_code r \<and> status_code r < 600 then Inl (HTTPError r)
      else case loads L (content r) of
             None \<Rightarrow> Inl JSONDecodeError
           | Some j \<Rightarrow> (case EditGETResponse_validator L j of
                          Inl es \<Rightarrow> Inl (ValidationError es) | Inr a \<Rightarrow> Inr a))"
  by (simp add: edit_get_def raise_for_status_def response_json_def model_validate_def Let_def
      split: prod.splits option.splits sum.splits)

lemma edit_post_result:
  "fst (edit_post L c d r doc (Dict kvs) w) =
     (if 400 \<le> status_code r \<and> status_code r < 600 then Inl (HTTPError r)
      else case loads L (content r) of
             None \<Rightarrow> Inl JSONDecodeError
           | Some j \<Rightarrow> (case EditPOSTResponse_validator L j of
                          Inl es \<Rightarrow> Inl (ValidationError es) | Inr a \<Rightarrow> Inr a))"
  by (simp add: edit_post_def raise_for_status_def response_json_def model_validate_def Let_def
      split: prod.splits option.splits sum.splits)

lemma backlink_result:
  "fst (backlink L c d r doc ns fl fr un w) =
     (if 400 \<le> status_code r \<and> status_code r < 600 then Inl (HTTPError r)
      else case loads L (content r) of
             None \<Rightarrow> Inl JSONDecodeError
           | Some j \<Rightarrow> (case BacklinkResponse_validator L j of
                          Inl es \<Rightarrow> Inl (ValidationError es) | Inr a \<Rightarrow> Inr a))"
  by (simp add: backlink_def raise_for_status_def response_json_def model_validate_def Let_def
      split: prod.splits option.splits sum.splits)

lemma discuss_result:
  "fst (discuss L c d r doc w) =
     (if 400 \<le> status_code r \<and> status_code r < 600 then Inl (HTTPError r)
      else case loads L (content r) of
             None \<Rightarrow> Inl JSONDecodeError
           | Some j \<Rightarrow>
               (case py_iter j of
                  None \<Rightarrow> Inl TypeError
                | Some xs \<Rightarrow>
                    fst (validate_items (DiscussResponse_validator L) xs
                      (snd (response_json L r
                        (session_request
                           \<lparr>http_method = GET, url = base_url c @ ''/discuss/'' @ doc,
                            query = [], json_body = None\<rparr>
                           (snd (acquire (limiter c) d w))))))))"
  by (simp add: discuss_def raise_for_status_def response_json_def Let_def
      split: prod.splits option.splits sum.splits)

lemma validate_items_not_HTTPError: "fst (validate_items v xs w) \<noteq> Inl (HTTPError r)"
proof (induction xs arbitrary: w)
  case Nil
  show ?case by simp
next
  case (Cons x xs)
  obtain a w1 where m: "model_validate v x w = (a, w1)" by force
  obtain b w2 where n: "validate_items v xs w1 = (b, w2)" by force
  have "b \<noteq> Inl (HTTPError r)"
    using Cons.IH [of w1] n by simp
  moreover have "a \<noteq> Inl (HTTPError r)"
    using m by (auto simp: model_validate_def split: sum.splits)
  ultimately show ?case
    by (auto simp: m n split: sum.splits)
qed

lemma validate_items_fails:
  "list_ex (\<lambda>x. isl (v x)) xs \<Longrightarrow> \<exists>es. fst (validate_items v xs w) = Inl (ValidationError es)"
proof (induction xs arbitrary: w)
  case Nil
  then show ?case by simp
next
  case (Cons x xs)
  obtain a w1 where m: "model_validate v x w = (a, w1)" by force
  show ?case
  proof (cases "v x")
    case (Inl es)
    then show ?thesis
      using m by (auto simp: model_validate_def)
  next
    case (Inr y)
    then have "list_ex (\<lambda>x. isl (v x)) xs"
      using Cons.prems by simp
    from Cons.IH [OF this, of w1]
    obtain es where "fst (validate_items v xs w1) = Inl (ValidationError es)" by blast
    then show ?thesis
      using m Inr by (cases "validate_items v xs w1") (auto simp: model_validate_def)
  qed
qed

lemma edit_get_raises:
  "(fst (edit_get L c d r doc w) = Inl (HTTPError r))
     = (400 \<le> status_code r \<and> status_code r < 600)"
  by (simp add: edit_get_result split: option.splits sum.splits)

lemma edit_post_raises:
  "(fst (edit_post L c d r doc (Dict kvs) w) = Inl (HTTPError r))
     = (400 \<le> status_code r \<and> status_code r < 600)"
  by (simp add: edit_post_result split: option.splits sum.splits)

lemma backlink_raises:
  "(fst (backlink L c d r doc ns fl fr un w) = Inl (HTTPError r))
     = (400 \<le> status_code r \<and> status_code r < 600)"
  by (simp add: backlink_result split: option.splits sum.splits)

lemma discuss_raises:
  "(fst (discuss L c d r doc w) = Inl (HTTPError r))
     = (400 \<le> status_code r \<and> status_code r < 600)"
  by (simp add: discuss_result validate_items_not_HTTPError split: option.splits sum.splits)

lemma edit_get_parses:
  "400 \<le> status_code r \<Longrightarrow> status_code r < 600 \<Longrightarrow>
   parses (snd (snd (edit_get L c d r doc w))) = parses w"
  using parses_acquire [of "limiter c" d w]
  by (auto simp: edit_get_def raise_for_status_def session_request_def parses_def Let_def
      split: prod.splits)

lemma edit_post_parses:
  "400 \<le> status_code r \<Longrightarrow> status_code r < 600 \<Longrightarrow>
   parses (snd (snd (edit_post L c d r doc body w))) = parses w"
  using parses_acquire [of "limiter c" d w]
  by (auto simp: edit_post_def raise_for_status_def session_request_def parses_def Let_def
      split: prod.splits post_body.splits)

lemma backlink_parses:
  "400 \<le> status_code r \<Longrightarrow> status_code r < 600 \<Longrightarrow>
   parses (snd (snd (backlink L c d r doc ns fl fr un w))) = parses w"
  using parses_acquire [of "limiter c" d w]
  by (auto simp: backlink_def raise_for_status_def session_request_def parses_def Let_def
      split: prod.splits)

lemma discuss_parses:
  "400 \<le> status_code r \<Longrightarrow> status_code r < 600 \<Longrightarrow>
   parses (snd (snd (discuss L c d r doc w))) = parses w"
  using parses_acquire [of "limiter c" d w]
  by (auto simp: discuss_def raise_for_status_def session_request_def parses_def Let_def
      split: prod.splits)

lemma edit_get_Json:
  "\<not> (400 \<le> status_code r \<and> status_code r < 600) \<Longrightarrow>
   Json \<in> set (trace (snd (snd (edit_get L c d r doc w))))"
  by (auto simp: edit_get_def raise_for_status_def session_request_def response_json_def
      model_validate_def Let_def split: prod.splits option.splits sum.splits)

lemma edit_post_Json:
  "\<not> (400 \<le> status_code r \<and> status_code r < 600) \<Longrightarrow>
   Json \<in> set (trace (snd (snd (edit_post L c d r doc (Dict kvs) w))))"
  by (auto simp: edit_post_def raise_for_status_def session_request_def response_json_def
      model_validate_def Let_def split: prod.splits option.splits sum.splits)

lemma backlink_Json:
  "\<not> (400 \<le> status_code r \<and> status_code r < 600) \<Longrightarrow>
   Json \<in> set (trace (snd (snd (backlink L c d r doc ns fl fr un w))))"
  by (auto simp: backlink_def raise_for_status_def session_request_def response_json_def
      model_validate_def Let_def split: prod.splits option.splits sum.splits)

lemma trace_validate_items: "set (trace w) \<subseteq> set (trace (snd (validate_items v xs w)))"
proof (induction xs arbitrary: w)
  case Nil
  show ?case by simp
next
  case (Cons x xs)
  obtain a w1 where m: "model_validate v x w = (a, w1)" by force
  have t1: "set (trace w) \<subseteq> set (trace w1)"
    using m by (auto simp: model_validate_def)
  obtain b w2 where n: "validate_items v xs w1 = (b, w2)" by force
  have "set (trace w1) \<subseteq> set (trace w2)"
    using Cons.IH [of w1] n by simp
  then show ?case
    using t1 by (auto simp: m n split: sum.splits)
qed

lemma trace_validate_items_mem:
  "validate_items v xs w = (res, w1) \<Longrightarrow> e \<in> set (trace w) \<Longrightarrow> e \<in> set (trace w1)"
  using trace_validate_items [of w v xs] by auto

lemma discuss_Json:
  "\<not> (400 \<le> status_code r \<and> status_code r < 600) \<Longrightarrow>
   Json \<in> set (trace (snd (snd (discuss L c d r doc w))))"
  by (auto simp: discuss_def raise_for_status_def session_request_def response_json_def Let_def
      split: prod.splits option.splits sum.splits elim!: trace_validate_items_mem)


text \<open>
  C3, as the code has it. \<^verbatim>\<open>raise_for_status\<close> raises for the status codes from 400 to
  599 only. Each operation that has sent its request (\<^verbatim>\<open>edit_post\<close> sends it when its
  body is a dict) raises \<^verbatim>\<open>HTTPError\<close>, which carries the response with its status code
  and its raw body, exactly when the status code is in that range; then
  \<^verbatim>\<open>response.json()\<close> is not called and nothing is validated. With any other status
  code no status error is raised and \<^verbatim>\<open>response.json()\<close> is called on the body.
\<close>

theorem status_error_raised:
  "(fst (edit_get L c d r doc w) = Inl (HTTPError r))
      = (400 \<le> status_code r \<and> status_code r < 600) \<and>
   (fst (edit_post L c d r doc (Dict kvs) w) = Inl (HTTPError r))
      = (400 \<le> status_code r \<and> status_code r < 600) \<and>
   (fst (backlink L c d r doc ns fl fr un w) = Inl (HTTPError r))
      = (400 \<le> status_code r \<and> status_code r < 600) \<and>
   (fst (discuss L c d r doc w) = Inl (HTTPError r))
      = (400 \<le> status_code r \<and> status_code r < 600) \<and>
   (400 \<le> status_code r \<and> status_code r < 600 \<longrightarrow>
      parses (snd (snd (edit_get L c d r doc w))) = parses w \<and>
      parses (snd (snd (edit_post L c d r doc (Dict kvs) w))) = parses w \<and>
      parses (snd (snd (backlink L c d r doc ns fl fr un w))) = parses w \<and>
      parses (snd (snd (discuss L c d r doc w))) = parses w) \<and>
   (\<not> (400 \<le> status_code r \<and> status_code r < 600) \<longrightarrow>
      Json \<in> set (trace (snd (snd (edit_get L c d r doc w)))) \<and>
      Json \<in> set (trace (snd (snd (edit_post L c d r doc (Dict kvs) w)))) \<and>
      Json \<in> set (trace (snd (snd (backlink L c d r doc ns fl fr un w)))) \<and>
      Json \<in> set (trace (snd (snd (discuss L c d r doc w)))))"
proof -
  have "parses (snd (snd (edit_get L c d r doc w))) = parses w \<and>
      parses (snd (snd (edit_post L c d r doc (Dict kvs) w))) = parses w \<and>
      parses (snd (snd (backlink L c d r doc ns fl fr un w))) = parses w \<and>
      parses (snd (snd (discuss L c d r doc w))) = parses w"
    if "400 \<le> status_code r" and "status_code r < 600"
    using that by (simp add: edit_get_parses edit_post_parses backlink_parses discuss_parses)
  moreover have "Json \<in> set (trace (snd (snd (edit_get L c d r doc w)))) \<and>
      Json \<in> set (trace (snd (snd (edit_post L c d r doc (Dict kvs) w)))) \<and>
      Json \<in> set (trace (snd (snd (backlink L c d r doc ns fl fr un w)))) \<and>
      Json \<in> set (trace (snd (snd (discuss L c d r doc w))))"
    if "\<not> (400 \<le> status_code r \<and> status_code r < 600)"
    by (simp add: edit_get_Json [OF that] edit_post_Json [OF that] backlink_Json [OF that]
        discuss_Json [OF that])
  ultimately show ?thesis
    using edit_get_raises [of L c d r doc w] edit_post_raises [of L c d r doc kvs w]
      backlink_raises [of L c d r doc ns fl fr un w] discuss_raises [of L c d r doc w]
    by blast
qed

theorem status_error_raised_witness:
  \<open>fst (edit_get (example_library []) example_client no_delay
      \<lparr>status_code = 404, content = ''{"error":"not found"}''\<rparr> ''Doc'' \<lparr>clock = 0, trace = []\<rparr>)
     = Inl (HTTPError \<lparr>status_code = 404, content = ''{"error":"not found"}''\<rparr>) \<and>
   fst (discuss (example_library []) example_client no_delay
      \<lparr>status_code = 404, content = ''{"error":"not found"}''\<rparr> ''Doc'' \<lparr>clock = 0, trace = []\<rparr>)
     = Inl (HTTPError \<lparr>status_code = 404, content = ''{"error":"not found"}''\<rparr>) \<and>
   parses (snd (snd (edit_get (example_library []) example_client no_delay
      \<lparr>status_code = 404, content = ''{"error":"not found"}''\<rparr> ''Doc'' \<lparr>clock = 0, trace = []\<rparr>)))
     = [] \<and>
   Json \<in> set (trace (snd (snd (edit_get (example_library []) example_client no_delay
      \<lparr>status_code = 200, content = ''{"error":"not found"}''\<rparr> ''Doc'' \<lparr>clock = 0, trace = []\<rparr>))))\<close>
  using status_error_raised [of \<open>example_library []\<close> example_client no_delay
      \<open>\<lparr>status_code = 404, content = ''{"error":"not found"}''\<rparr>\<close> \<open>''Doc''\<close>
      \<open>\<lparr>clock = 0, trace = []\<rparr>\<close>]
    status_error_raised [of \<open>example_library []\<close> example_client no_delay
      \<open>\<lparr>status_code = 200, content = ''{"error":"not found"}''\<rparr>\<close> \<open>''Doc''\<close>
      \<open>\<lparr>clock = 0, trace = []\<rparr>\<close>]
  by (simp add: parses_def)

text \<open>
  C3 as stated fails: 300 is not a 2xx status, and a response with that status and a
  body that matches the schema gives a validated result, not an error.
\<close>

theorem status_300_counterexample:
  \<open>fst (edit_get
      (example_library
         [(''{"text":"hi","exists":true,"token":"t1"}'',
           JObj [(''text'', JStr ''hi''), (''exists'', JBool True), (''token'', JStr ''t1'')])])
      example_client no_delay
      \<lparr>status_code = 300, content = ''{"text":"hi","exists":true,"token":"t1"}''\<rparr>
      ''Doc'' \<lparr>clock = 0, trace = []\<rparr>)
     = Inr \<lparr>eg_text = ''hi'', eg_exists = True, eg_token = ''t1''\<rparr>\<close>
  by (simp add: edit_get_result example_library_def EditGETResponse_validator_def get_field_def
      str_validator_def bool_validator_def)

text \<open>
  C4 at the backlink schema. The server names the pagination fields \<^verbatim>\<open>from\<close> and
  \<^verbatim>\<open>until\<close> (\<^verbatim>\<open>backlink\<close> itself sends its argument \<^verbatim>\<open>fromm\<close> under the name
  \<^verbatim>\<open>from\<close>), and the model declares the field \<^verbatim>\<open>fromm\<close> without an alias. A response
  of the server with every field present is therefore rejected: the field \<^verbatim>\<open>fromm\<close> is
  reported as missing.
\<close>

theorem backlink_from_key_rejected:
  \<open>fst (backlink
      (example_library
         [(''{"namespaces":[{"namespace":"doc","count":1}],"backlinks":[{"document":"A","flags":"link"}],"from":null,"until":"B"}'',
           JObj [(''namespaces'', JArr [JObj [(''namespace'', JStr ''doc''), (''count'', JInt 1)]]),
                 (''backlinks'', JArr [JObj [(''document'', JStr ''A''), (''flags'', JStr ''link'')]]),
                 (''from'', JNull), (''until'', JStr ''B'')])])
      example_client no_delay
      \<lparr>status_code = 200,
        content = ''{"namespaces":[{"namespace":"doc","count":1}],"backlinks":[{"document":"A","flags":"link"}],"from":null,"until":"B"}''\<rparr>
      ''Doc'' None None None None \<lparr>clock = 0, trace = []\<rparr>)
     = Inl (ValidationError [([Key ''fromm''], Missing)])\<close>
  by (simp add: backlink_result example_library_def BacklinkResponse_validator_def get_field_def
      list_validator_def Namespaces_validator_def Backlinks_validator_def str_validator_def
      int_validator_def optional_validator_def errs_def)

text \<open>
  C5, as the code has it. In \<^verbatim>\<open>BacklinkResponse\<close> the field \<^verbatim>\<open>until\<close> is nullable and
  required: a payload in which it is absent is rejected with an error that reports it
  as missing, and so is one without \<^verbatim>\<open>namespaces\<close> or without \<^verbatim>\<open>backlinks\<close>; setting
  \<^verbatim>\<open>until\<close> to null in a payload that validates gives a payload that validates, with
  the field unset.
\<close>

theorem until_nullable_and_required:
  "(map_of obj ''until'' = None \<longrightarrow>
      names_missing (fst (model_validate (BacklinkResponse_validator L) (JObj obj) w)) ''until'') \<and>
   (map_of obj ''namespaces'' = None \<longrightarrow>
      names_missing (fst (model_validate (BacklinkResponse_validator L) (JObj obj) w)) ''namespaces'') \<and>
   (map_of obj ''backlinks'' = None \<longrightarrow>
      names_missing (fst (model_validate (BacklinkResponse_validator L) (JObj obj) w)) ''backlinks'') \<and>
   (BacklinkResponse_validator L (JObj obj) = Inr b \<longrightarrow>
      BacklinkResponse_validator L (JObj (AList.update ''until'' JNull obj))
        = Inr (b\<lparr>br_until := None\<rparr>))"
proof -
  have "BacklinkResponse_validator L (JObj (AList.update ''until'' JNull obj))
        = Inr (b\<lparr>br_until := None\<rparr>)"
    if "BacklinkResponse_validator L (JObj obj) = Inr b"
    using that
    by (auto simp: BacklinkResponse_validator_def get_field_update_other get_field_update_same
        optional_validator_def split: sum.splits)
  then show ?thesis
    using BacklinkResponse_missing [of obj "''until''" L w]
      BacklinkResponse_missing [of obj "''namespaces''" L w]
      BacklinkResponse_missing [of obj "''backlinks''" L w]
    by simp
qed

theorem until_nullable_and_required_witness:
  "names_missing (fst (model_validate (BacklinkResponse_validator (example_library []))
      (JObj [(''fromm'', JNull)]) \<lparr>clock = 0, trace = []\<rparr>)) ''until'' \<and>
   names_missing (fst (model_validate (BacklinkResponse_validator (example_library []))
      (JObj [(''fromm'', JNull)]) \<lparr>clock = 0, trace = []\<rparr>)) ''namespaces'' \<and>
   names_missing (fst (model_validate (BacklinkResponse_validator (example_library []))
      (JObj [(''fromm'', JNull)]) \<lparr>clock = 0, trace = []\<rparr>)) ''backlinks'' \<and>
   BacklinkResponse_validator (example_library [])
      (JObj [(''namespaces'', JArr []), (''backlinks'', JArr []), (''fromm'', JNull),
             (''until'', JStr ''Z'')])
     = Inr \<lparr>br_namespaces = [], br_backlinks = [], br_fromm = None, br_until = Some ''Z''\<rparr> \<and>
   BacklinkResponse_validator (example_library [])
      (JObj [(''namespaces'', JArr []), (''backlinks'', JArr []), (''fromm'', JNull),
             (''until'', JNull)])
     = Inr \<lparr>br_namespaces = [], br_backlinks = [], br_fromm = None, br_until = None\<rparr>"
proof -
  have v: "BacklinkResponse_validator (example_library [])
      (JObj [(''namespaces'', JArr []), (''backlinks'', JArr []), (''fromm'', JNull),
             (''until'', JStr ''Z'')])
     = Inr \<lparr>br_namespaces = [], br_backlinks = [], br_fromm = None, br_until = Some ''Z''\<rparr>"
    by (simp add: BacklinkResponse_validator_def get_field_def list_validator_def
        optional_validator_def str_validator_def)
  show ?thesis
    using until_nullable_and_required [of "[(''fromm'', JNull)]" "example_library []"
        "\<lparr>clock = 0, trace = []\<rparr>"]
      until_nullable_and_required [where obj = "[(''namespaces'', JArr []), (''backlinks'', JArr []),
          (''fromm'', JNull), (''until'', JStr ''Z'')]" and L = "example_library []"
          and b = "\<lparr>br_namespaces = [], br_backlinks = [], br_fromm = None, br_until = Some ''Z''\<rparr>"]
      v
    by simp
qed

text \<open>
  C5 as stated fails: a payload whose other fields validate and in which \<^verbatim>\<open>until\<close> is
  absent is rejected.
\<close>

theorem until_absent_counterexample:
  "fst (model_validate (BacklinkResponse_validator (example_library []))
      (JObj [(''namespaces'', JArr []), (''backlinks'', JArr []), (''fromm'', JNull)])
      \<lparr>clock = 0, trace = []\<rparr>)
   = Inl (ValidationError [([Key ''until''], Missing)])"
  by (simp add: model_validate_def BacklinkResponse_validator_def get_field_def
      list_validator_def optional_validator_def errs_def)

lemma backlink_sent:
  "sent (snd (snd (backlink L c d r document namespace flag fromm until w)))
     = sent w @
       [\<lparr>http_method = GET, url = base_url c @ ''/backlink/'' @ document,
         query = encode_params
           [(''namespace'', map_option PStr namespace), (''flag'', map_option PInt flag),
            (''from'', map_option PStr fromm), (''until'', map_option PStr until)],
         json_body = None\<rparr>]"
proof -
  obtain lm w1 where a: "acquire (limiter c) d w = (lm, w1)" by force
  have s1: "sent w1 = sent w"
    using sent_acquire [of "limiter c" d w] a by simp
  show ?thesis
    using s1
    by (simp add: backlink_def a sent_def session_request_def response_json_def
        model_validate_def Let_def split: option.splits prod.splits sum.splits)
qed

lemma sent_no_trace: "sent \<lparr>clock = t, trace = []\<rparr> = []"
  by (simp add: sent_def)

lemma url_query_none: "CHR ''?'' \<notin> set u \<Longrightarrow> url_query u = []"
  by (induction u) (auto simp: url_query_def)

lemma wire_keys_no_query:
  "CHR ''?'' \<notin> set (url rq) \<Longrightarrow> wire_keys rq = map fst (query rq)"
  by (simp add: wire_keys_def url_query_none)

lemma encode_params_keys:
  "map fst (encode_params [(k1, a), (k2, b), (k3, c), (k4, e)])
     = (if a = None then [] else [k1]) @ (if b = None then [] else [k2]) @
       (if c = None then [] else [k3]) @ (if e = None then [] else [k4])"
  by (cases a; cases b; cases c; cases e) (simp_all add: encode_params_def)

lemma encode_params_lookup:
  "map_of (encode_params
     [(''namespace'', a), (''flag'', b), (''from'', c), (''until'', e)]) ''namespace'' = a"
  "map_of (encode_params
     [(''namespace'', a), (''flag'', b), (''from'', c), (''until'', e)]) ''flag'' = b"
  "map_of (encode_params
     [(''namespace'', a), (''flag'', b), (''from'', c), (''until'', e)]) ''from'' = c"
  "map_of (encode_params
     [(''namespace'', a), (''flag'', b), (''from'', c), (''until'', e)]) ''until'' = e"
  by (cases a; cases b; cases c; cases e; simp add: encode_params_def)+

lemma example_base_url: "base_url example_client = ''https://wiki.example/api''"
  by (simp add: example_client_def TheSeedAPIClient_init_def rstrip_slash_def)

text \<open>
  C7, as the code has it. The arguments that are unset add nothing to the request:
  \<^verbatim>\<open>backlink\<close> called with the document alone sends one GET request to the URL made of
  the base URL and the document, with no parameter encoded from \<^verbatim>\<open>params\<close>. The document
  is pasted into the URL as it is given. When neither it nor the base URL holds a
  \<^verbatim>\<open>?\<close>, the request that goes out has no query parameter at all, and in general it has
  one parameter exactly for each argument that was given, with the value given.
\<close>

theorem backlink_unset_omitted:
  "sent (snd (snd (backlink L c d r document None None None None w)))
     = sent w @
       [\<lparr>http_method = GET, url = base_url c @ ''/backlink/'' @ document, query = [],
         json_body = None\<rparr>] \<and>
   (CHR ''?'' \<notin> set (base_url c) \<and> CHR ''?'' \<notin> set document \<longrightarrow>
      wire_keys (last (sent (snd (snd (backlink L c d r document None None None None w))))) = [] \<and>
      (\<exists>rq. sent (snd (snd (backlink L c d r document namespace flag fromm until w)))
               = sent w @ [rq] \<and>
            set (wire_keys rq) \<subseteq> {''namespace'', ''flag'', ''from'', ''until''} \<and>
            (''namespace'' \<in> set (wire_keys rq)) = (namespace \<noteq> None) \<and>
            (''flag'' \<in> set (wire_keys rq)) = (flag \<noteq> None) \<and>
            (''from'' \<in> set (wire_keys rq)) = (fromm \<noteq> None) \<and>
            (''until'' \<in> set (wire_keys rq)) = (until \<noteq> None) \<and>
            map_of (query rq) ''namespace'' = map_option PStr namespace \<and>
            map_of (query rq) ''flag'' = map_option PInt flag \<and>
            map_of (query rq) ''from'' = map_option PStr fromm \<and>
            map_of (query rq) ''until'' = map_option PStr until))"
proof -
  define u where "u = base_url c @ ''/backlink/'' @ document"
  define rq where "rq = \<lparr>http_method = GET, url = u,
      query = encode_params
        [(''namespace'', map_option PStr namespace), (''flag'', map_option PInt flag),
         (''from'', map_option PStr fromm), (''until'', map_option PStr until)],
      json_body = None\<rparr>"
  define rq0 where "rq0 = \<lparr>http_method = GET, url = u, query = [], json_body = None :: json option\<rparr>"
  have s0: "sent (snd (snd (backlink L c d r document None None None None w))) = sent w @ [rq0]"
    by (simp add: backlink_sent encode_params_def rq0_def u_def)
  have s1: "sent (snd (snd (backlink L c d r document namespace flag fromm until w))) = sent w @ [rq]"
    by (simp add: backlink_sent rq_def u_def)
  have part: "wire_keys rq0 = [] \<and>
      set (wire_keys rq) \<subseteq> {''namespace'', ''flag'', ''from'', ''until''} \<and>
      (''namespace'' \<in> set (wire_keys rq)) = (namespace \<noteq> None) \<and>
      (''flag'' \<in> set (wire_keys rq)) = (flag \<noteq> None) \<and>
      (''from'' \<in> set (wire_keys rq)) = (fromm \<noteq> None) \<and>
      (''until'' \<in> set (wire_keys rq)) = (until \<noteq> None)"
    if "CHR ''?'' \<notin> set (base_url c)" and "CHR ''?'' \<notin> set document"
  proof -
    have nq: "CHR ''?'' \<notin> set u"
      using that by (simp add: u_def)
    have k0: "wire_keys rq0 = []"
      using nq by (simp add: wire_keys_no_query rq0_def)
    have k: "wire_keys rq = map fst (query rq)"
      using nq by (simp add: wire_keys_no_query rq_def)
    show ?thesis
      unfolding k k0 by (simp add: rq_def encode_params_keys)
  qed
  have look: "map_of (query rq) ''namespace'' = map_option PStr namespace \<and>
      map_of (query rq) ''flag'' = map_option PInt flag \<and>
      map_of (query rq) ''from'' = map_option PStr fromm \<and>
      map_of (query rq) ''until'' = map_option PStr until"
    by (simp add: rq_def encode_params_lookup)
  show ?thesis
    unfolding s0 s1 using part look by (auto simp: rq0_def u_def)
qed

theorem backlink_unset_omitted_witness:
  "CHR ''?'' \<notin> set (base_url example_client) \<and> CHR ''?'' \<notin> set ''Doc'' \<and>
   wire_keys (last (sent (snd (snd (backlink (example_library []) example_client no_delay
      \<lparr>status_code = 200, content = []\<rparr> ''Doc'' None None None None
      \<lparr>clock = 0, trace = []\<rparr>))))) = [] \<and>
   map url (sent (snd (snd (backlink (example_library []) example_client no_delay
      \<lparr>status_code = 200, content = []\<rparr> ''Doc'' None None None None
      \<lparr>clock = 0, trace = []\<rparr>)))) = [''https://wiki.example/api/backlink/Doc''] \<and>
   map (\<lambda>rq. map fst (query rq)) (sent (snd (snd (backlink (example_library []) example_client
      no_delay \<lparr>status_code = 200, content = []\<rparr> ''Doc'' None (Some 1) None (Some ''Z'')
      \<lparr>clock = 0, trace = []\<rparr>)))) = [[''flag'', ''until'']]"
proof -
  have h: "CHR ''?'' \<notin> set (base_url example_client) \<and> CHR ''?'' \<notin> set ''Doc''"
    by (simp add: example_base_url)
  show ?thesis
    using h backlink_unset_omitted [of "example_library []" example_client no_delay
      "\<lparr>status_code = 200, content = []\<rparr>" "''Doc''" "\<lparr>clock = 0, trace = []\<rparr>"
      None "Some 1" None "Some ''Z''"]
    by (simp add: backlink_sent sent_no_trace example_base_url encode_params_def)
qed

text \<open>
  C7 as stated fails: the document \<^verbatim>\<open>Doc?from=X\<close> brings a query of its own. With all
  four arguments unset the request goes out to a URL that ends in \<^verbatim>\<open>Doc?from=X\<close>, and
  its query has the parameter \<^verbatim>\<open>from\<close>.
\<close>

theorem backlink_document_query_counterexample:
  "map url (sent (snd (snd (backlink (example_library []) example_client no_delay
      \<lparr>status_code = 200, content = []\<rparr> ''Doc?from=X'' None None None None
      \<lparr>clock = 0, trace = []\<rparr>)))) = [''https://wiki.example/api/backlink/Doc?from=X''] \<and>
   map wire_keys (sent (snd (snd (backlink (example_library []) example_client no_delay
      \<lparr>status_code = 200, content = []\<rparr> ''Doc?from=X'' None None None None
      \<lparr>clock = 0, trace = []\<rparr>)))) = [[''from'']]"
proof -
  have q: "url_query ''https://wiki.example/api/backlink/Doc?from=X'' = ''from=X''"
    by (simp add: url_query_def)
  show ?thesis
    by (simp add: backlink_sent sent_no_trace example_base_url encode_params_def wire_keys_def q)
qed

text \<open>
  C8. A \<^verbatim>\<open>DiscussResponse\<close> payload whose status is a string other than \<^verbatim>\<open>normal\<close>,
  \<^verbatim>\<open>close\<close> and \<^verbatim>\<open>pause\<close> is rejected with an error at the field \<^verbatim>\<open>status\<close>; a payload
  with one of the three, and with its other fields of the declared types, validates and
  keeps the status. In \<^verbatim>\<open>discuss\<close>, when the body is a list and an item of it fails
  validation, the call raises a \<^verbatim>\<open>ValidationError\<close> and returns no list.
\<close>

theorem status_closed_set:
  "(map_of obj ''status'' = Some (JStr s) \<and> s \<notin> set [''normal'', ''close'', ''pause''] \<longrightarrow>
      (\<exists>es. fst (model_validate (DiscussResponse_validator L) (JObj obj) w)
               = Inl (ValidationError es) \<and>
            ([Key ''status''], LiteralError) \<in> set es)) \<and>
   (map_of obj ''slug'' = Some (JStr a) \<and> map_of obj ''topic'' = Some (JStr b) \<and>
    map_of obj ''updated_date'' = Some u \<and> to_datetime L u = Some t \<and>
    map_of obj ''status'' = Some (JStr s) \<and> s \<in> set [''normal'', ''close'', ''pause''] \<longrightarrow>
      fst (model_validate (DiscussResponse_validator L) (JObj obj) w)
        = Inr \<lparr>dr_slug = a, dr_topic = b, dr_updated_date = t, dr_status = s\<rparr>) \<and>
   (\<not> (400 \<le> status_code r \<and> status_code r < 600) \<and> loads L (content r) = Some (JArr xs) \<and>
    list_ex (\<lambda>x. isl (DiscussResponse_validator L x)) xs \<longrightarrow>
      (\<exists>es. fst (discuss L c d r doc w1) = Inl (ValidationError es)))"
proof -
  have rej: "\<exists>es. fst (model_validate (DiscussResponse_validator L) (JObj obj) w)
               = Inl (ValidationError es) \<and> ([Key ''status''], LiteralError) \<in> set es"
    if "map_of obj ''status'' = Some (JStr s)" and "s \<notin> set [''normal'', ''close'', ''pause'']"
    using that
    by (auto simp: model_validate_def DiscussResponse_validator_def get_field_def
        literal_validator_def under_def errs_simps split: sum.splits option.splits)
  have acc: "fst (model_validate (DiscussResponse_validator L) (JObj obj) w)
        = Inr \<lparr>dr_slug = a, dr_topic = b, dr_updated_date = t, dr_status = s\<rparr>"
    if "map_of obj ''slug'' = Some (JStr a)" and "map_of obj ''topic'' = Some (JStr b)"
      and "map_of obj ''updated_date'' = Some u" and "to_datetime L u = Some t"
      and "map_of obj ''status'' = Some (JStr s)" and "s \<in> set [''normal'', ''close'', ''pause'']"
    using DiscussResponse_roundtrip [OF that] by (simp add: model_validate_def)
  have all: "\<exists>es. fst (discuss L c d r doc w1) = Inl (ValidationError es)"
    if "\<not> (400 \<le> status_code r \<and> status_code r < 600)"
      and "loads L (content r) = Some (JArr xs)"
      and "list_ex (\<lambda>x. isl (DiscussResponse_validator L x)) xs"
    using that validate_items_fails [OF that(3)]
    by (simp add: discuss_result py_iter_def)
  show ?thesis
    using rej acc all by blast
qed

theorem status_closed_set_witness:
  \<open>fst (model_validate (DiscussResponse_validator (example_library []))
      (JObj [(''slug'', JStr ''s1''), (''topic'', JStr ''T''), (''updated_date'', JInt 1700000000),
             (''status'', JStr ''archived'')]) \<lparr>clock = 0, trace = []\<rparr>)
     = Inl (ValidationError [([Key ''status''], LiteralError)]) \<and>
   fst (model_validate (DiscussResponse_validator (example_library []))
      (JObj [(''slug'', JStr ''s1''), (''topic'', JStr ''T''), (''updated_date'', JInt 1700000000),
             (''status'', JStr ''pause'')]) \<lparr>clock = 0, trace = []\<rparr>)
     = Inr \<lparr>dr_slug = ''s1'', dr_topic = ''T'', dr_updated_date = 1700000000,
            dr_status = ''pause''\<rparr> \<and>
   (\<exists>es. fst (discuss
      (example_library
         [(''[{"slug":"s1","topic":"T","updated_date":1700000000,"status":"close"},{"slug":"s2","topic":"U","updated_date":1700000001,"status":"archived"}]'',
           JArr [JObj [(''slug'', JStr ''s1''), (''topic'', JStr ''T''),
                       (''updated_date'', JInt 1700000000), (''status'', JStr ''close'')],
                 JObj [(''slug'', JStr ''s2''), (''topic'', JStr ''U''),
                       (''updated_date'', JInt 1700000001), (''status'', JStr ''archived'')]])])
      example_client no_delay
      \<lparr>status_code = 200,
        content = ''[{"slug":"s1","topic":"T","updated_date":1700000000,"status":"close"},{"slug":"s2","topic":"U","updated_date":1700000001,"status":"archived"}]''\<rparr>
      ''Doc'' \<lparr>clock = 0, trace = []\<rparr>) = Inl (ValidationError es))\<close>
  using status_closed_set [of
      \<open>[(''slug'', JStr ''s1''), (''topic'', JStr ''T''), (''updated_date'', JInt 1700000000),
        (''status'', JStr ''archived'')]\<close> \<open>''archived''\<close> \<open>example_library []\<close>
      \<open>\<lparr>clock = 0, trace = []\<rparr>\<close>]
    status_closed_set [of
      \<open>[(''slug'', JStr ''s1''), (''topic'', JStr ''T''), (''updated_date'', JInt 1700000000),
        (''status'', JStr ''pause'')]\<close> \<open>''pause''\<close> \<open>example_library []\<close>
      \<open>\<lparr>clock = 0, trace = []\<rparr>\<close> \<open>''s1''\<close> \<open>''T''\<close> \<open>JInt 1700000000\<close> 1700000000]
    status_closed_set [where
      L = \<open>example_library
         [(''[{"slug":"s1","topic":"T","updated_date":1700000000,"status":"close"},{"slug":"s2","topic":"U","updated_date":1700000001,"status":"archived"}]'',
           JArr [JObj [(''slug'', JStr ''s1''), (''topic'', JStr ''T''),
                       (''updated_date'', JInt 1700000000), (''status'', JStr ''close'')],
                 JObj [(''slug'', JStr ''s2''), (''topic'', JStr ''U''),
                       (''updated_date'', JInt 1700000001), (''status'', JStr ''archived'')]])]\<close>
      and r = \<open>\<lparr>status_code = 200,
        content = ''[{"slug":"s1","topic":"T","updated_date":1700000000,"status":"close"},{"slug":"s2","topic":"U","updated_date":1700000001,"status":"archived"}]''\<rparr>\<close>
      and xs = \<open>[JObj [(''slug'', JStr ''s1''), (''topic'', JStr ''T''),
                       (''updated_date'', JInt 1700000000), (''status'', JStr ''close'')],
                 JObj [(''slug'', JStr ''s2''), (''topic'', JStr ''U''),
                       (''updated_date'', JInt 1700000001), (''status'', JStr ''archived'')]]\<close>
      and c = example_client and d = no_delay and doc = \<open>''Doc''\<close>
      and ?w1.0 = \<open>\<lparr>clock = 0, trace = []\<rparr>\<close> and obj = \<open>[]\<close> and s = \<open>''x''\<close>]
  by (simp add: model_validate_def example_library_def DiscussResponse_validator_def get_field_def
      str_validator_def datetime_validator_def literal_validator_def under_def errs_def)

end
